theory Spec2Isabelle
  imports Complex_Main "HOL-Library.AList" "HOL-Library.Log_Nat"
begin

section \<open>Conventions\<close>

text \<open>
  The development embeds the ensemble logic of the fraud-detection service:
  \<^verbatim>\<open>models/ensemble_model.py\<close>, \<^verbatim>\<open>models/kmeans_model.py\<close>, \<^verbatim>\<open>models/autoencoder_model.py\<close>
  and \<^verbatim>\<open>models/random_forest_model.py\<close>.

  Python and numpy numbers are IEEE-754 doubles. Where a claim turns on the rounding of an
  operation (the normalisation of the weights, the candidate grid of the optimizer), the
  operation is modelled with its rounding, by the functions of the section on double-precision
  arithmetic. Elsewhere (probabilities, reconstruction errors, fraud rates, scores) a double is
  taken as the real number it denotes and the arithmetic is exact. The fitted third-party
  estimators (the scikit-learn forest, scaler, PCA and k-means and the Keras network) are not
  part of the repository; what they compute for the rows of an input table is an argument of
  the model. Every \<^verbatim>\<open>raise\<close> of the source, and every exception of a library call that the
  modelled paths can reach, is a value \<open>Inl err\<close>.
\<close>

datatype error =
    ValueError string
  | KeyError string
  | TypeError string
  | IndexError string
  | ZeroDivisionError

section \<open>Array helpers\<close>

text \<open>Element-wise combination of three numpy arrays of the same length.\<close>

fun map3 :: "('a \<Rightarrow> 'b \<Rightarrow> 'c \<Rightarrow> 'd) \<Rightarrow> 'a list \<Rightarrow> 'b list \<Rightarrow> 'c list \<Rightarrow> 'd list" where
  "map3 f (x # xs) (y # ys) (z # zs) = f x y z # map3 f xs ys zs"
| "map3 f _ _ _ = []"

text \<open>\<^verbatim>\<open>a.min()\<close> and \<^verbatim>\<open>a.max()\<close>: numpy raises ValueError on an empty array.\<close>

fun array_min :: "real list \<Rightarrow> error + real" where
  "array_min [] = Inl (ValueError ''zero-size array to reduction operation minimum which has no identity'')"
| "array_min (x # xs) = Inr (fold min xs x)"

fun array_max :: "real list \<Rightarrow> error + real" where
  "array_max [] = Inl (ValueError ''zero-size array to reduction operation maximum which has no identity'')"
| "array_max (x # xs) = Inr (fold max xs x)"

text \<open>\<^verbatim>\<open>(a > t).astype(int)\<close>\<close>

definition gt_int :: "real \<Rightarrow> real list \<Rightarrow> int list" where
  "gt_int t a = map (\<lambda>x. if x > t then 1 else 0) a"

text \<open>
  \<^verbatim>\<open>np.percentile(a, q)\<close> with numpy's default linear interpolation: on the sorted array the
  virtual index \<open>q / 100 * (n - 1)\<close> is split into its floor and its fraction, and the result
  interpolates between the two neighbouring order statistics. The two callers pass non-empty
  arrays only; the range check on \<open>q\<close> is made by the caller that takes \<open>q\<close> as a parameter.
\<close>

definition percentile :: "real list \<Rightarrow> real \<Rightarrow> real" where
  "percentile a q =
     (let s = sort a;
          n = length s;
          virtual_index = q / 100 * real (n - 1);
          previous = nat \<lfloor>virtual_index\<rfloor>;
          next = min (previous + 1) (n - 1);
          gamma = virtual_index - real previous
      in s ! previous + (s ! next - s ! previous) * gamma)"

text \<open>\<^verbatim>\<open>np.unique(a)\<close>: the sorted distinct values.\<close>

definition unique :: "nat list \<Rightarrow> nat list" where
  "unique a = sort (remdups a)"

text \<open>\<^verbatim>\<open>y[mask].mean()\<close> on integer labels.\<close>

definition mean_int :: "int list \<Rightarrow> real" where
  "mean_int ys = real_of_int (sum_list ys) / real (length ys)"

section \<open>Double-precision arithmetic\<close>

text \<open>
  A finite double is a real number \<open>n * 2 ^ p\<close> with \<open>\<bar>n\<bar> < 2 ^ 53\<close> and
  \<open>- 1074 \<le> p \<le> 971\<close>. Every arithmetic operation returns the exact result rounded to the
  nearest such number, ties to the even significand; a result that rounds to \<open>2 ^ 1024\<close> or
  beyond in magnitude becomes an infinity.

  \<open>binade x\<close> is the exponent \<open>e\<close> with \<open>2 ^ e \<le> x < 2 ^ (e + 1)\<close> of a positive \<open>x\<close>
  (lemma \<open>binade_bounds\<close>), \<open>scale2 x p\<close> is \<open>x * 2 ^ p\<close>, and \<open>nearest x\<close> rounds \<open>x\<close> to
  53 significant bits on the grid of spacing \<open>2 ^ - 1074\<close> at least, before any overflow.
\<close>

definition binade :: "real \<Rightarrow> int" where
  "binade x = (if 1 \<le> x then bitlen \<lfloor>x\<rfloor> - 1 else - bitlen (\<lceil>1 / x\<rceil> - 1))"

definition scale2 :: "real \<Rightarrow> int \<Rightarrow> real" where
  "scale2 x p = (if 0 \<le> p then x * 2 ^ nat p else x / 2 ^ nat (- p))"

definition round_half_even :: "real \<Rightarrow> int" where
  "round_half_even m =
     (let n = \<lfloor>m\<rfloor>; r = m - of_int n
      in if r < 1 / 2 then n else if r > 1 / 2 then n + 1 else if even n then n else n + 1)"

definition nearest :: "real \<Rightarrow> real" where
  "nearest x =
     (if x = 0 then 0
      else
        let p = max (binade \<bar>x\<bar>) (- 1022) - 52
        in sgn x * scale2 (of_int (round_half_even (scale2 \<bar>x\<bar> (- p)))) p)"

text \<open>The values of a Python \<^verbatim>\<open>float\<close>.\<close>

datatype double = Finite real | PosInf | NegInf | NaN

definition fl :: "real \<Rightarrow> double" where
  "fl x = (let r = nearest x
          in if 2 ^ 1024 \<le> r then PosInf else if r \<le> - (2 ^ 1024) then NegInf else Finite r)"

text \<open>The reals that are doubles.\<close>

definition is_double :: "real \<Rightarrow> bool" where
  "is_double x \<longleftrightarrow> fl x = Finite x"

text \<open>\<^verbatim>\<open>a + b\<close> on floats.\<close>

fun fadd :: "double \<Rightarrow> double \<Rightarrow> double" where
  "fadd (Finite a) (Finite b) = fl (a + b)"
| "fadd NaN _ = NaN"
| "fadd _ NaN = NaN"
| "fadd PosInf NegInf = NaN"
| "fadd NegInf PosInf = NaN"
| "fadd PosInf _ = PosInf"
| "fadd _ PosInf = PosInf"
| "fadd NegInf _ = NegInf"
| "fadd _ NegInf = NegInf"

text \<open>
  \<^verbatim>\<open>a / b\<close> on floats: Python raises ZeroDivisionError for a zero divisor, whatever the
  dividend; otherwise the quotient follows IEEE-754. The sign of a zero is not kept.
\<close>

fun fdiv :: "double \<Rightarrow> double \<Rightarrow> error + double" where
  "fdiv a (Finite b) =
     (if b = 0 then Inl ZeroDivisionError
      else case a of
             Finite x \<Rightarrow> Inr (fl (x / b))
           | PosInf \<Rightarrow> Inr (if 0 < b then PosInf else NegInf)
           | NegInf \<Rightarrow> Inr (if 0 < b then NegInf else PosInf)
           | NaN \<Rightarrow> Inr NaN)"
| "fdiv a NaN = Inr NaN"
| "fdiv (Finite x) b = Inr (Finite 0)"
| "fdiv a b = Inr NaN"

section \<open>The classifier adapter (FraudDetectionRandomForest)\<close>

record rf_state =
  rf_is_trained :: bool

text \<open>
  \<^verbatim>\<open>predict(X, return_probabilities=True)[:, 1]\<close>. The argument \<open>proba\<close> is the class-1 column
  of \<^verbatim>\<open>self.model.predict_proba\<close> on the rows of \<open>X\<close>; scikit-learn's input validation
  rejects a table without rows.
\<close>

definition rf_predict :: "rf_state \<Rightarrow> real list \<Rightarrow> error + real list" where
  "rf_predict m proba =
     (if \<not> rf_is_trained m then Inl (ValueError ''Model must be trained before making predictions'')
      else if proba = [] then Inl (ValueError ''Found array with 0 sample(s)'')
      else Inr proba)"

section \<open>The reconstruction detector (FraudDetectionAutoencoder)\<close>

record ae_state =
  ae_is_trained :: bool
  threshold :: "real option"

text \<open>
  \<^verbatim>\<open>predict(X, return_reconstruction_error=True)\<close>. The argument \<open>reconstruction_errors\<close> is
  \<^verbatim>\<open>np.mean(np.square(X_scaled - X_pred), axis=1)\<close>, one entry per row of \<open>X\<close>. The threshold
  is \<^verbatim>\<open>None\<close> until training or loading sets it; comparing an array with \<^verbatim>\<open>None\<close> is a
  TypeError.
\<close>

definition ae_predict :: "ae_state \<Rightarrow> real list \<Rightarrow> error + (int list \<times> real list)" where
  "ae_predict m reconstruction_errors =
     (if \<not> ae_is_trained m then Inl (ValueError ''Model must be trained before making predictions'')
      else if reconstruction_errors = [] then Inl (ValueError ''Found array with 0 sample(s)'')
      else case threshold m of
             None \<Rightarrow> Inl (TypeError ''> not supported between ndarray and NoneType'')
           | Some t \<Rightarrow> Inr (gt_int t reconstruction_errors, reconstruction_errors))"

text \<open>The state built by \<^verbatim>\<open>__init__\<close>.\<close>

definition ae_init :: ae_state where
  "ae_init = \<lparr>ae_is_trained = False, threshold = None\<rparr>"

text \<open>
  \<^verbatim>\<open>train(X)\<close>, as far as the stored decision threshold goes. The argument
  \<open>reconstruction_errors\<close> is what the network, once fitted, yields on the training rows,
  \<^verbatim>\<open>np.mean(np.square(X_scaled - X_pred), axis=1)\<close>; the scaler rejects a table without rows
  before the network is built. The fit itself (random initial weights, dropout and shuffling
  drawn from the generators that \<^verbatim>\<open>__init__\<close> seeds) belongs to Keras and is not modelled: how
  the errors depend on the seed is outside this definition.
\<close>

definition ae_train :: "ae_state \<Rightarrow> real list \<Rightarrow> error + ae_state" where
  "ae_train m reconstruction_errors =
     (if reconstruction_errors = [] then Inl (ValueError ''Found array with 0 sample(s)'')
      else Inr (m\<lparr>threshold := Some (percentile reconstruction_errors 95), ae_is_trained := True\<rparr>))"

section \<open>The cluster detector (FraudDetectionKMeans)\<close>

text \<open>
  \<open>cluster_fraud_rates\<close> and \<open>fraud_rate_threshold\<close> are the entries of
  \<^verbatim>\<open>self.performance_metrics\<close> under these keys; \<open>None\<close> is an absent key. The rate dictionary
  is an association list in insertion order.
\<close>

record kmeans_state =
  km_is_trained :: bool
  fraud_clusters :: "nat list"
  cluster_fraud_rates :: "(nat \<times> real) list option"
  fraud_rate_threshold :: "real option"

text \<open>
  \<^verbatim>\<open>predict(X)\<close>. The argument \<open>assigned\<close> holds, for each row of \<open>X\<close>, the cluster that
  \<^verbatim>\<open>self.model.predict\<close> assigns to it.
\<close>

definition km_predict :: "kmeans_state \<Rightarrow> nat list \<Rightarrow> error + nat list" where
  "km_predict m assigned =
     (if \<not> km_is_trained m then Inl (ValueError ''Model must be trained before making predictions'')
      else if assigned = [] then Inl (ValueError ''Found array with 0 sample(s)'')
      else Inr assigned)"

definition predict_fraud_probability :: "kmeans_state \<Rightarrow> nat list \<Rightarrow> error + real list" where
  "predict_fraud_probability m assigned =
     (if fraud_clusters m = []
      then Inl (ValueError ''Fraud clusters must be identified before predicting fraud probability'')
      else case km_predict m assigned of
             Inl err \<Rightarrow> Inl err
           | Inr cluster_labels \<Rightarrow>
               (case cluster_fraud_rates m of
                  None \<Rightarrow> Inl (KeyError ''cluster_fraud_rates'')
                | Some rates \<Rightarrow>
                    Inr (map (\<lambda>cluster_id. case map_of rates cluster_id of
                                               Some fraud_rate \<Rightarrow> fraud_rate
                                             | None \<Rightarrow> 0) cluster_labels)))"

definition km_init :: kmeans_state where
  "km_init = \<lparr>km_is_trained = False, fraud_clusters = [], cluster_fraud_rates = None,
              fraud_rate_threshold = None\<rparr>"

text \<open>
  The fraud rate of one cluster:
  \<^verbatim>\<open>y[cluster_mask].mean() if cluster_mask.sum() > 0 else 0\<close>.
\<close>

definition cluster_fraud_rate :: "nat list \<Rightarrow> int list \<Rightarrow> nat \<Rightarrow> real" where
  "cluster_fraud_rate cluster_labels y cluster_id =
     (let members = map snd (filter (\<lambda>(c, l). c = cluster_id) (zip cluster_labels y))
      in if length members > 0 then mean_int members else 0)"

text \<open>
  \<^verbatim>\<open>identify_fraud_clusters(X, y, threshold_percentile)\<close>. \<open>assigned\<close> is as in
  \<open>km_predict\<close>, \<open>y\<close> is the label vector. A boolean mask whose length differs from that of
  \<open>y\<close> is an IndexError of pandas; numpy rejects a percentile outside \<open>[0, 100]\<close>.
\<close>

definition identify_fraud_clusters ::
  "kmeans_state \<Rightarrow> nat list \<Rightarrow> int list \<Rightarrow> real \<Rightarrow> error + kmeans_state" where
  "identify_fraud_clusters m assigned y threshold_percentile =
     (if \<not> km_is_trained m
      then Inl (ValueError ''Model must be trained before identifying fraud clusters'')
      else case km_predict m assigned of
             Inl err \<Rightarrow> Inl err
           | Inr cluster_labels \<Rightarrow>
               if length y \<noteq> length cluster_labels
               then Inl (IndexError ''Boolean index has wrong length'')
               else
                 let rates = map (\<lambda>cluster_id. (cluster_id, cluster_fraud_rate cluster_labels y cluster_id))
                                 (unique cluster_labels)
                 in if threshold_percentile < 0 \<or> threshold_percentile > 100
                    then Inl (ValueError ''Percentiles must be in the range [0, 100]'')
                    else
                      let thr = percentile (map snd rates) threshold_percentile;
                          clusters = map fst (filter (\<lambda>(cluster_id, fraud_rate). fraud_rate \<ge> thr) rates)
                      in Inr (m\<lparr>fraud_clusters := clusters,
                                  cluster_fraud_rates := Some rates,
                                  fraud_rate_threshold := Some thr\<rparr>))"

section \<open>The ensemble (FraudDetectionEnsemble)\<close>

record weight_dict =
  w_rf :: real
  w_ae :: real
  w_kmeans :: real

datatype voting = Weighted | Majority | Unanimous

record ensemble =
  rf_model :: rf_state
  ae_model :: ae_state
  kmeans_model :: kmeans_state
  weights :: weight_dict
  voting_method :: voting
  is_trained :: bool

text \<open>
  One row of an input table \<open>X\<close>, as the three fitted estimators see it: the forest's class-1
  probability, the network's reconstruction error and the k-means cluster of the row.
\<close>

record scored_row =
  rf_score :: real
  ae_error :: real
  km_cluster :: nat

text \<open>
  \<^verbatim>\<open>(ae_scores - ae_scores.min()) / (ae_scores.max() - ae_scores.min() + 1e-8)\<close>
\<close>

definition minmax_normalize :: "real list \<Rightarrow> error + real list" where
  "minmax_normalize ae_scores =
     (case array_min ae_scores of
        Inl err \<Rightarrow> Inl err
      | Inr lo \<Rightarrow>
          (case array_max ae_scores of
             Inl err \<Rightarrow> Inl err
           | Inr hi \<Rightarrow> Inr (map (\<lambda>s. (s - lo) / (hi - lo + 1 / 10 ^ 8)) ae_scores)))"

text \<open>The three branches of \<^verbatim>\<open>predict\<close> on \<^verbatim>\<open>self.voting_method\<close>.\<close>

definition combine ::
  "weight_dict \<Rightarrow> voting \<Rightarrow> real list \<Rightarrow> int list \<Rightarrow> real list \<Rightarrow> real list \<Rightarrow> int list \<times> real list" where
  "combine w method rf_proba ae_pred ae_proba kmeans_proba =
     (case method of
        Weighted \<Rightarrow>
          (let ensemble_proba =
                 map3 (\<lambda>r a k. w_rf w * r + w_ae w * a + w_kmeans w * k) rf_proba ae_proba kmeans_proba
           in (gt_int (1 / 2) ensemble_proba, ensemble_proba))
      | Majority \<Rightarrow>
          (let rf_binary = gt_int (1 / 2) rf_proba;
               ae_binary = ae_pred;
               kmeans_binary = gt_int (1 / 2) kmeans_proba;
               votes = map3 (\<lambda>r a k. r + a + k) rf_binary ae_binary kmeans_binary
           in (map (\<lambda>v. if v \<ge> 2 then 1 else 0) votes, map (\<lambda>v. real_of_int v / 3) votes))
      | Unanimous \<Rightarrow>
          (let rf_binary = gt_int (1 / 2) rf_proba;
               ae_binary = ae_pred;
               kmeans_binary = gt_int (1 / 2) kmeans_proba
           in (map3 (\<lambda>r a k. and (and r a) k) rf_binary ae_binary kmeans_binary,
               map3 (\<lambda>r a k. min (min r a) k) rf_proba ae_proba kmeans_proba)))"

text \<open>
  \<^verbatim>\<open>predict(X, return_probabilities=True)\<close>: the pair \<^verbatim>\<open>(ensemble_pred, ensemble_proba)\<close>. The
  two flags of the source only select which of the computed arrays are returned.
\<close>

definition predict :: "ensemble \<Rightarrow> scored_row list \<Rightarrow> error + (int list \<times> real list)" where
  "predict e X =
     (if \<not> is_trained e then Inl (ValueError ''Ensemble must be trained before making predictions'')
      else case rf_predict (rf_model e) (map rf_score X) of
             Inl err \<Rightarrow> Inl err
           | Inr rf_proba \<Rightarrow>
      (case ae_predict (ae_model e) (map ae_error X) of
         Inl err \<Rightarrow> Inl err
       | Inr (ae_pred, ae_scores) \<Rightarrow>
      (case minmax_normalize ae_scores of
         Inl err \<Rightarrow> Inl err
       | Inr ae_proba \<Rightarrow>
      (case predict_fraud_probability (kmeans_model e) (map km_cluster X) of
         Inl err \<Rightarrow> Inl err
       | Inr kmeans_proba \<Rightarrow>
           Inr (combine (weights e) (voting_method e) rf_proba ae_pred ae_proba kmeans_proba)))))"

text \<open>
  \<^verbatim>\<open>set_weights(rf_weight, ae_weight, kmeans_weight)\<close> on float arguments. The result is the
  dictionary the call assigns to \<^verbatim>\<open>self.weights\<close>, with the doubles it holds; no other
  attribute changes. The total is two rounded additions, each weight one rounded division;
  the first division raises when the total is zero.
\<close>

record stored_weights =
  s_rf :: double
  s_ae :: double
  s_kmeans :: double

definition set_weights :: "double \<Rightarrow> double \<Rightarrow> double \<Rightarrow> error + stored_weights" where
  "set_weights rf_weight ae_weight kmeans_weight =
     (let total_weight = fadd (fadd rf_weight ae_weight) kmeans_weight
      in case fdiv rf_weight total_weight of
           Inl err \<Rightarrow> Inl err
         | Inr rf \<Rightarrow>
        (case fdiv ae_weight total_weight of
           Inl err \<Rightarrow> Inl err
         | Inr ae \<Rightarrow>
        (case fdiv kmeans_weight total_weight of
           Inl err \<Rightarrow> Inl err
         | Inr kmeans \<Rightarrow> Inr \<lparr>s_rf = rf, s_ae = ae, s_kmeans = kmeans\<rparr>)))"


text \<open>The state built by \<^verbatim>\<open>__init__\<close>.\<close>

definition ensemble_init :: ensemble where
  "ensemble_init =
     \<lparr>rf_model = \<lparr>rf_is_trained = False\<rparr>, ae_model = ae_init, kmeans_model = km_init,
      weights = \<lparr>w_rf = 1 / 2, w_ae = 3 / 10, w_kmeans = 1 / 5\<rparr>,
      voting_method = Weighted, is_trained = False\<rparr>"

section \<open>The weight optimizer\<close>

text \<open>
  \<^verbatim>\<open>classification_report(y_true, y_pred, output_dict=True)['1']['f1-score']\<close> of scikit-learn.
  The report has one entry per label that occurs in \<open>y_true\<close> or \<open>y_pred\<close>, so the key
  \<^verbatim>\<open>'1'\<close> is missing when neither holds a 1. Precision, recall and F1 with a zero denominator
  are reported as 0 (the default \<^verbatim>\<open>zero_division\<close>, which only warns).
\<close>

definition classification_report_f1 :: "int list \<Rightarrow> int list \<Rightarrow> error + real" where
  "classification_report_f1 y_true y_pred =
     (if length y_true \<noteq> length y_pred
      then Inl (ValueError ''Found input variables with inconsistent numbers of samples'')
      else if 1 \<notin> set y_true \<union> set y_pred then Inl (KeyError ''1'')
      else
        let pairs = zip y_true y_pred;
            tp = real (length (filter (\<lambda>(t, p). t = 1 \<and> p = 1) pairs));
            fp = real (length (filter (\<lambda>(t, p). t \<noteq> 1 \<and> p = 1) pairs));
            fn = real (length (filter (\<lambda>(t, p). t = 1 \<and> p \<noteq> 1) pairs));
            precision = (if tp + fp = 0 then 0 else tp / (tp + fp));
            recall = (if tp + fn = 0 then 0 else tp / (tp + fn))
        in Inr (if precision + recall = 0 then 0
                else 2 * precision * recall / (precision + recall)))"

text \<open>
  \<^verbatim>\<open>np.linspace(start, stop, num)\<close> on doubles, as numpy computes it: the step is the rounded
  difference divided by \<open>num - 1\<close>, entry \<open>i\<close> is \<open>i * step + start\<close> with both operations
  rounded, and the last entry is set to \<open>stop\<close>. (For a step that rounds to zero numpy
  divides first and multiplies then.) The two calls of the optimizer stay far from overflow.
\<close>

definition linspace :: "real \<Rightarrow> real \<Rightarrow> nat \<Rightarrow> real list" where
  "linspace start stop num =
     (let divisor = num - 1;
          delta = nearest (stop - start);
          step = nearest (delta / real divisor);
          y = map (\<lambda>i. nearest
                     ((if step = 0 then nearest (nearest (real i / real divisor) * delta)
                       else nearest (real i * step)) + start)) [0..<num]
      in if 1 < num then y[num - 1 := stop] else y)"

text \<open>
  The two nested loops that fill \<^verbatim>\<open>weight_combinations\<close>, over arbitrary grids of doubles:
  \<^verbatim>\<open>kmeans_w = 1.0 - rf_w - ae_w\<close> is two rounded subtractions, and the bounds of the test are
  the doubles that the literals \<^verbatim>\<open>0.1\<close> and \<^verbatim>\<open>0.6\<close> denote.
\<close>

definition weight_grid :: "real list \<Rightarrow> real list \<Rightarrow> weight_dict list" where
  "weight_grid rf_grid ae_grid =
     concat (map (\<lambda>rf_w.
       concat (map (\<lambda>ae_w.
         let kmeans_w = nearest (nearest (1 - rf_w) - ae_w)
         in if kmeans_w \<ge> nearest (1 / 10) \<and> kmeans_w \<le> nearest (6 / 10)
            then [\<lparr>w_rf = rf_w, w_ae = ae_w, w_kmeans = kmeans_w\<rparr>]
            else []) ae_grid)) rf_grid)"

definition weight_combinations :: "weight_dict list" where
  "weight_combinations =
     weight_grid (linspace (nearest (2 / 10)) (nearest (8 / 10)) 5)
                 (linspace (nearest (1 / 10)) (nearest (6 / 10)) 5)"

text \<open>
  The score of one candidate: the ensemble's predictions with the candidate stored as the
  current weights, then the positive-class F1 against the validation labels.
\<close>

definition candidate_score :: "ensemble \<Rightarrow> scored_row list \<Rightarrow> int list \<Rightarrow> weight_dict \<Rightarrow> error + real" where
  "candidate_score e X_val y_val w =
     (case predict (e\<lparr>weights := w\<rparr>) X_val of
        Inl err \<Rightarrow> Inl err
      | Inr (predictions, proba) \<Rightarrow> classification_report_f1 y_val predictions)"

text \<open>
  The loop over the candidates. The state is threaded as the source mutates it:
  \<^verbatim>\<open>self.weights = weights\<close> before each prediction. An exception leaves the loop; the state in
  which it leaves the object is not part of the result.
\<close>

fun search ::
  "ensemble \<Rightarrow> scored_row list \<Rightarrow> int list \<Rightarrow> weight_dict list \<Rightarrow> real \<Rightarrow> weight_dict
     \<Rightarrow> error + (ensemble \<times> real \<times> weight_dict)" where
  "search e X_val y_val [] best_f1 best_weights = Inr (e, best_f1, best_weights)"
| "search e X_val y_val (w # ws) best_f1 best_weights =
     (case candidate_score e X_val y_val w of
        Inl err \<Rightarrow> Inl err
      | Inr f1 \<Rightarrow>
          if f1 > best_f1 then search (e\<lparr>weights := w\<rparr>) X_val y_val ws f1 w
          else search (e\<lparr>weights := w\<rparr>) X_val y_val ws best_f1 best_weights)"

text \<open>\<^verbatim>\<open>_optimize_weights(X_val, y_val, n_trials)\<close>\<close>

definition optimize_weights :: "ensemble \<Rightarrow> scored_row list \<Rightarrow> int list \<Rightarrow> nat \<Rightarrow> error + ensemble" where
  "optimize_weights e X_val y_val n_trials =
     (case search e X_val y_val (take n_trials weight_combinations) 0 (weights e) of
        Inl err \<Rightarrow> Inl err
      | Inr (e', best_f1, best_weights) \<Rightarrow> Inr (e'\<lparr>weights := best_weights\<rparr>))"


section \<open>Conditions on the state\<close>



text \<open>The stored per-cluster fraud rates are fractions of a cluster's rows.\<close>

definition rates_in_unit :: "kmeans_state \<Rightarrow> bool" where
  "rates_in_unit m \<longleftrightarrow>
     (case cluster_fraud_rates m of
        None \<Rightarrow> True
      | Some rates \<Rightarrow> list_all (\<lambda>(cluster_id, fraud_rate). 0 \<le> fraud_rate \<and> fraud_rate \<le> 1) rates)"

section \<open>Example states\<close>

text \<open>
  An ensemble whose three adapters are fitted, as \<^verbatim>\<open>load_model\<close> restores it: detector
  threshold 1, three clusters with fraud rates 0, 5/8 and 1, of which the 90th percentile
  37/40 marks cluster 2; default weights and policy.
\<close>

definition fitted_ensemble :: ensemble where
  "fitted_ensemble =
     \<lparr>rf_model = \<lparr>rf_is_trained = True\<rparr>,
      ae_model = \<lparr>ae_is_trained = True, threshold = Some 1\<rparr>,
      kmeans_model = \<lparr>km_is_trained = True, fraud_clusters = [2],
                      cluster_fraud_rates = Some [(0, 0), (1, 5 / 8), (2, 1)],
                      fraud_rate_threshold = Some (37 / 40)\<rparr>,
      weights = \<lparr>w_rf = 1 / 2, w_ae = 3 / 10, w_kmeans = 1 / 5\<rparr>,
      voting_method = Weighted, is_trained = True\<rparr>"





section \<open>Feature engineering on a table\<close>

text \<open>
  A pandas DataFrame is a list of named columns in column order; a column is numeric or holds
  objects (strings). \<^verbatim>\<open>features[name] = values\<close> replaces the column of that name where it
  stands, or appends a new one.
\<close>

datatype column = Numeric "real list" | Object "string list"

type_synonym table = "(string \<times> column) list"

definition assign :: "table \<Rightarrow> string \<Rightarrow> column \<Rightarrow> table" where
  "assign features name values = AList.update name values features"

text \<open>
  \<^verbatim>\<open>features.select_dtypes(include=[np.number]).columns\<close>
\<close>

definition numeric_cols :: "table \<Rightarrow> string list" where
  "numeric_cols features =
     map fst (filter (\<lambda>(name, c). case c of Numeric _ \<Rightarrow> True | Object _ \<Rightarrow> False) features)"

text \<open>
  \<^verbatim>\<open>Series.mean()\<close>, \<^verbatim>\<open>Series.std()\<close> (sample standard deviation, NaN below two rows: \<open>None\<close>;
  a comparison with NaN is false) and \<^verbatim>\<open>Series.rank(pct=True)\<close> (average rank of ties, divided
  by the number of rows).
\<close>

definition mean :: "real list \<Rightarrow> real" where
  "mean xs = sum_list xs / real (length xs)"

definition std :: "real list \<Rightarrow> real option" where
  "std xs =
     (if length xs < 2 then None
      else Some (sqrt (sum_list (map (\<lambda>x. (x - mean xs) ^ 2) xs) / real (length xs - 1))))"

definition std_positive :: "real list \<Rightarrow> bool" where
  "std_positive xs = (case std xs of None \<Rightarrow> False | Some s \<Rightarrow> s > 0)"

definition rank_pct :: "real list \<Rightarrow> real list" where
  "rank_pct xs =
     map (\<lambda>x. (real (length (filter (\<lambda>y. y < x) xs))
                + (real (length (filter (\<lambda>y. y = x) xs)) + 1) / 2) / real (length xs)) xs"

text \<open>
  One round of the loop \<^verbatim>\<open>for col in numeric_cols\<close> that ends \<^verbatim>\<open>prepare_features\<close> of the
  cluster detector (kmeans_model.py, lines 150 to 157). The loop runs over the numeric columns
  present before it starts and reads the table as the earlier rounds left it.
\<close>

definition kmeans_stat_step :: "string \<Rightarrow> table \<Rightarrow> table" where
  "kmeans_stat_step col features =
     (case map_of features col of
        Some (Numeric xs) \<Rightarrow>
          if col \<noteq> ''is_fraud'' \<and> std_positive xs
          then assign
                 (assign features (col @ ''_zscore'')
                    (Numeric (map (\<lambda>x. (x - mean xs) / the (std xs)) xs)))
                 (col @ ''_percentile'') (Numeric (rank_pct xs))
          else features
      | _ \<Rightarrow> features)"

text \<open>
  The blocks of \<^verbatim>\<open>prepare_features\<close> before that loop each start with a test for claim
  columns (\<^verbatim>\<open>if 'claim_date' in features.columns\<close>, and so on). They are built from pandas'
  \<^verbatim>\<open>groupby\<close>, \<^verbatim>\<open>merge\<close> and datetime accessors and are not modelled: on a table for which one
  of them runs, the functions below return \<open>None\<close>. On every other table the loop is the whole
  of \<^verbatim>\<open>prepare_features\<close>.
\<close>

definition claim_blocks_apply :: "table \<Rightarrow> bool" where
  "claim_blocks_apply df =
     (let cols = set (map fst df)
      in ''claim_date'' \<in> cols \<or> ''claim_amount'' \<in> cols \<or> ''provider_id'' \<in> cols
         \<or> ''patient_id'' \<in> cols \<or> ''diagnosis_code'' \<in> cols \<or> ''procedure_code'' \<in> cols
         \<or> (''provider_location'' \<in> cols \<and> ''patient_location'' \<in> cols))"

definition prepare_features_kmeans :: "table \<Rightarrow> table option" where
  "prepare_features_kmeans df =
     (if claim_blocks_apply df then None
      else Some (fold kmeans_stat_step (numeric_cols df) df))"

text \<open>
  The same for the reconstruction detector (autoencoder_model.py, lines 140 to 145).
\<close>

definition autoencoder_stat_step :: "string \<Rightarrow> table \<Rightarrow> table" where
  "autoencoder_stat_step col features =
     (case map_of features col of
        Some (Numeric xs) \<Rightarrow>
          if col \<noteq> ''is_fraud'' \<and> std_positive xs
          then let z_score = map (\<lambda>x. \<bar>(x - mean xs) / the (std xs)\<bar>) xs
               in assign
                    (assign features (col @ ''_z_score'') (Numeric z_score))
                    (col @ ''_is_outlier'') (Numeric (map (\<lambda>z. if z > 3 then 1 else 0) z_score))
          else features
      | _ \<Rightarrow> features)"

definition prepare_features_autoencoder :: "table \<Rightarrow> table option" where
  "prepare_features_autoencoder df =
     (if claim_blocks_apply df then None
      else Some (fold autoencoder_stat_step (numeric_cols df) df))"

section \<open>Auxiliary facts: arrays\<close>

lemma length_map3: "length xs = n \<Longrightarrow> length ys = n \<Longrightarrow> length zs = n \<Longrightarrow> length (map3 f xs ys zs) = n"
  by (induction f xs ys zs arbitrary: n rule: map3.induct) auto

lemma nth_map3: "i < length xs \<Longrightarrow> length ys = length xs \<Longrightarrow> length zs = length xs \<Longrightarrow>
  map3 f xs ys zs ! i = f (xs ! i) (ys ! i) (zs ! i)"
proof (induction f xs ys zs arbitrary: i rule: map3.induct)
  case (1 f x xs y ys z zs)
  then show ?case by (cases i) auto
qed auto

lemma length_gt_int: "length (gt_int t a) = length a"
  by (simp add: gt_int_def)

lemma nth_gt_int: "i < length a \<Longrightarrow> gt_int t a ! i = (if a ! i > t then 1 else 0)"
  by (simp add: gt_int_def)

lemma and_bits01:
  fixes r a k :: int
  assumes "r \<in> {0, 1}" "a \<in> {0, 1}" "k \<in> {0, 1}"
  shows "and (and r a) k \<in> {0, 1}" and "and (and r a) k = 1 \<Longrightarrow> r + a + k \<ge> 2"
  using assms by auto





section \<open>Auxiliary facts: percentiles\<close>

lemma percentile_bracket:
  assumes "a \<noteq> []" "0 \<le> q" "q \<le> 100"
  defines "n \<equiv> length a"
  defines "lo \<equiv> nat \<lfloor>q / 100 * real (n - 1)\<rfloor>"
  defines "hi \<equiv> min (lo + 1) (n - 1)"
  shows "lo \<le> hi \<and> hi < n \<and> sort a ! lo \<le> percentile a q \<and> percentile a q \<le> sort a ! hi"
proof -
  let ?v = "q / 100 * real (n - 1)"
  have n: "n > 0" using assms(1) n_def by simp
  have v0: "0 \<le> ?v" using assms(2) by simp
  have "q / 100 \<le> 1" using assms(3) by simp
  then have "?v \<le> 1 * real (n - 1)" by (intro mult_right_mono) auto
  then have v1: "?v \<le> real (n - 1)" by simp
  have "\<lfloor>?v\<rfloor> \<le> int (n - 1)" using v1 by (simp add: floor_le_iff)
  then have lo_le: "lo \<le> n - 1" unfolding lo_def by linarith
  have lohi: "lo \<le> hi" unfolding hi_def using lo_le by simp
  have hin: "hi < n" unfolding hi_def using n by simp
  have flo: "real lo = of_int \<lfloor>?v\<rfloor>" unfolding lo_def using v0 by simp
  have g0: "0 \<le> ?v - real lo" unfolding flo by linarith
  have g1: "?v - real lo \<le> 1" unfolding flo by linarith
  have srt: "sort a ! lo \<le> sort a ! hi"
    by (rule sorted_nth_mono) (use lohi hin n_def in auto)
  have eq: "percentile a q = sort a ! lo + (sort a ! hi - sort a ! lo) * (?v - real lo)"
    unfolding percentile_def Let_def lo_def hi_def n_def by simp
  have d: "0 \<le> sort a ! hi - sort a ! lo" using srt by simp
  have "0 \<le> (sort a ! hi - sort a ! lo) * (?v - real lo)" using d g0 by simp
  moreover have "(sort a ! hi - sort a ! lo) * (?v - real lo) \<le> (sort a ! hi - sort a ! lo) * 1"
    using d g1 by (intro mult_left_mono) auto
  ultimately show ?thesis using eq lohi hin by simp
qed

lemma percentile_le_Max:
  assumes "a \<noteq> []" "0 \<le> q" "q \<le> 100"
  shows "percentile a q \<le> Max (set a)"
proof -
  define hi where "hi = min (nat \<lfloor>q / 100 * real (length a - 1)\<rfloor> + 1) (length a - 1)"
  have b: "hi < length a" "percentile a q \<le> sort a ! hi"
    using percentile_bracket[OF assms] unfolding hi_def by blast+
  from b(1) have "hi < length (sort a)" by simp
  then have "sort a ! hi \<in> set (sort a)" by (rule nth_mem)
  then have "sort a ! hi \<le> Max (set a)" by simp
  then show ?thesis using b(2) by linarith
qed

lemma percentile_ge_Min:
  assumes "a \<noteq> []" "0 \<le> q" "q \<le> 100"
  shows "Min (set a) \<le> percentile a q"
proof -
  define lo where "lo = nat \<lfloor>q / 100 * real (length a - 1)\<rfloor>"
  define hi where "hi = min (lo + 1) (length a - 1)"
  have b: "lo \<le> hi" "hi < length a" "sort a ! lo \<le> percentile a q"
    using percentile_bracket[OF assms] unfolding lo_def hi_def by blast+
  from b(1,2) have "lo < length (sort a)" by simp
  then have "sort a ! lo \<in> set (sort a)" by (rule nth_mem)
  then have "Min (set a) \<le> sort a ! lo" by simp
  then show ?thesis using b(3) by linarith
qed

lemma unique_nonempty: "a \<noteq> [] \<Longrightarrow> unique a \<noteq> []"
  by (cases a) (auto simp: unique_def dest!: arg_cong[where f=set])

lemma mean_int_unit:
  assumes "ys \<noteq> []" "\<forall>l \<in> set ys. l = 0 \<or> l = 1"
  shows "0 \<le> mean_int ys \<and> mean_int ys \<le> 1"
proof -
  have "0 \<le> sum_list ys \<and> sum_list ys \<le> int (length ys)" using assms(2)
    by (induction ys) auto
  then have "0 \<le> real_of_int (sum_list ys)" "real_of_int (sum_list ys) \<le> real (length ys)"
    by linarith+
  moreover have "0 < real (length ys)" using assms(1) by simp
  ultimately show ?thesis unfolding mean_int_def by simp
qed

lemma cluster_fraud_rate_unit:
  assumes "\<forall>l \<in> set y. l = 0 \<or> l = 1"
  shows "0 \<le> cluster_fraud_rate cl y c \<and> cluster_fraud_rate cl y c \<le> 1"
proof -
  let ?members = "map snd (filter (\<lambda>(c', l). c' = c) (zip cl y))"
  have "\<forall>l \<in> set ?members. l = 0 \<or> l = 1" using assms by (auto dest: set_zip_rightD)
  then show ?thesis
    using mean_int_unit[of ?members] by (auto simp: cluster_fraud_rate_def Let_def)
qed

section \<open>Auxiliary facts: adapters and prediction\<close>

lemma rf_predict_Inr: "rf_predict m p = Inr q \<Longrightarrow> q = p \<and> p \<noteq> [] \<and> rf_is_trained m"
  by (auto simp: rf_predict_def split: if_splits)

lemma ae_predict_Inr: "ae_predict m errs = Inr (pred, scores) \<Longrightarrow>
   scores = errs \<and> errs \<noteq> [] \<and> ae_is_trained m \<and> (\<exists>t. threshold m = Some t \<and> pred = gt_int t errs)"
  by (auto simp: ae_predict_def split: if_splits option.splits)

lemma minmax_normalize_length: "minmax_normalize s = Inr p \<Longrightarrow> length p = length s"
  by (auto simp: minmax_normalize_def split: sum.splits)



lemma pfp_length: "predict_fraud_probability m a = Inr p \<Longrightarrow> length p = length a"
  by (auto simp: predict_fraud_probability_def km_predict_def split: if_splits sum.splits option.splits)


lemma predict_Inr:
  assumes "predict e X = Inr r"
  shows "\<exists>rf_proba ae_pred ae_scores ae_proba kmeans_proba.
           is_trained e \<and>
           rf_predict (rf_model e) (map rf_score X) = Inr rf_proba \<and>
           ae_predict (ae_model e) (map ae_error X) = Inr (ae_pred, ae_scores) \<and>
           minmax_normalize ae_scores = Inr ae_proba \<and>
           predict_fraud_probability (kmeans_model e) (map km_cluster X) = Inr kmeans_proba \<and>
           length rf_proba = length X \<and> length ae_pred = length X \<and>
           length ae_proba = length X \<and> length kmeans_proba = length X \<and>
           r = combine (weights e) (voting_method e) rf_proba ae_pred ae_proba kmeans_proba"
proof -
  from assms obtain rf_proba ae_pred ae_scores ae_proba kmeans_proba where
    h: "is_trained e" "rf_predict (rf_model e) (map rf_score X) = Inr rf_proba"
       "ae_predict (ae_model e) (map ae_error X) = Inr (ae_pred, ae_scores)"
       "minmax_normalize ae_scores = Inr ae_proba"
       "predict_fraud_probability (kmeans_model e) (map km_cluster X) = Inr kmeans_proba"
       "r = combine (weights e) (voting_method e) rf_proba ae_pred ae_proba kmeans_proba"
    by (auto simp: predict_def split: if_splits sum.splits prod.splits)
  have l1: "length rf_proba = length X" using h(2) rf_predict_Inr by fastforce
  have l2: "length ae_scores = length X" "length ae_pred = length X"
    using h(3) ae_predict_Inr[OF h(3)] by (auto simp: length_gt_int)
  have l3: "length ae_proba = length X" using h(4) l2 minmax_normalize_length by fastforce
  have l4: "length kmeans_proba = length X" using h(5) pfp_length by fastforce
  show ?thesis using h l1 l2 l3 l4 by blast
qed

lemma predict_eq:
  assumes "is_trained e"
    and "rf_predict (rf_model e) (map rf_score X) = Inr rf_proba"
    and "ae_predict (ae_model e) (map ae_error X) = Inr (ae_pred, ae_scores)"
    and "minmax_normalize ae_scores = Inr ae_proba"
    and "predict_fraud_probability (kmeans_model e) (map km_cluster X) = Inr kmeans_proba"
  shows "predict e X = Inr (combine (weights e) (voting_method e) rf_proba ae_pred ae_proba kmeans_proba)"
  using assms by (simp add: predict_def)

lemma predict_length:
  assumes "predict e X = Inr (pred, proba)"
  shows "length pred = length X"
proof -
  from predict_Inr[OF assms] obtain rf_proba ae_pred ae_scores ae_proba kmeans_proba where
    l: "length rf_proba = length X" "length ae_pred = length X"
       "length ae_proba = length X" "length kmeans_proba = length X"
    and r: "(pred, proba) = combine (weights e) (voting_method e) rf_proba ae_pred ae_proba kmeans_proba"
    by auto
  show ?thesis
  proof (cases "voting_method e")
    case Weighted
    then have "pred = gt_int (1 / 2) (map3 (\<lambda>r a k. w_rf (weights e) * r + w_ae (weights e) * a + w_kmeans (weights e) * k) rf_proba ae_proba kmeans_proba)"
      using r by (simp add: combine_def Let_def)
    then show ?thesis using l by (simp add: length_gt_int length_map3)
  next
    case Majority
    then have "pred = map (\<lambda>v. if v \<ge> 2 then 1 else 0) (map3 (\<lambda>r a k. r + a + k) (gt_int (1 / 2) rf_proba) ae_pred (gt_int (1 / 2) kmeans_proba))"
      using r by (simp add: combine_def Let_def)
    then show ?thesis using l by (simp add: length_gt_int length_map3)
  next
    case Unanimous
    then have "pred = map3 (\<lambda>r a k. and (and r a) k) (gt_int (1 / 2) rf_proba) ae_pred (gt_int (1 / 2) kmeans_proba)"
      using r by (simp add: combine_def Let_def)
    then show ?thesis using l by (simp add: length_gt_int length_map3)
  qed
qed



lemma identify_Inr:
  assumes "identify_fraud_clusters m assigned y q = Inr m'"
  shows "fraud_clusters m' \<noteq> []"
proof -
  let ?rates = "map (\<lambda>c. (c, cluster_fraud_rate assigned y c)) (unique assigned)"
  let ?thr = "percentile (map snd ?rates) q"
  from assms have tr: "km_is_trained m" and ne: "assigned \<noteq> []" and q: "0 \<le> q" "q \<le> 100"
    and m': "m' = m\<lparr>fraud_clusters := map fst (filter (\<lambda>(c, r). r \<ge> ?thr) ?rates),
                      cluster_fraud_rates := Some ?rates, fraud_rate_threshold := Some ?thr\<rparr>"
    by (auto simp: identify_fraud_clusters_def km_predict_def Let_def split: if_splits sum.splits)
  have rne: "map snd ?rates \<noteq> []" using unique_nonempty[OF ne] by simp
  have "?thr \<le> Max (set (map snd ?rates))" by (rule percentile_le_Max[OF rne q])
  moreover have "Max (set (map snd ?rates)) \<in> set (map snd ?rates)"
    using rne by (intro Max_in) auto
  ultimately have "\<exists>r \<in> set (map snd ?rates). ?thr \<le> r" by blast
  then have "\<exists>p \<in> set ?rates. ?thr \<le> snd p" unfolding set_map by blast
  then have "filter (\<lambda>(c, r). r \<ge> ?thr) ?rates \<noteq> []"
    unfolding filter_empty_conv by (auto simp: split_beta)
  then show ?thesis using m' by simp
qed

lemma identify_rates_in_unit:
  assumes "identify_fraud_clusters m assigned y q = Inr m'" "\<forall>l \<in> set y. l = 0 \<or> l = 1"
  shows "rates_in_unit m'"
proof -
  from assms(1) have "cluster_fraud_rates m' = Some (map (\<lambda>c. (c, cluster_fraud_rate assigned y c)) (unique assigned))"
    by (auto simp: identify_fraud_clusters_def km_predict_def Let_def split: if_splits sum.splits)
  then show ?thesis using cluster_fraud_rate_unit[OF assms(2)]
    by (auto simp: rates_in_unit_def list_all_iff)
qed

section \<open>Auxiliary facts: double rounding\<close>

lemma scale2_powi: "scale2 x p = x * 2 powi p"
proof (cases "0 \<le> p")
  case True
  then show ?thesis by (simp add: scale2_def power_int_def)
next
  case False
  then have "(2::real) powi p = inverse (2 ^ nat (- p))"
    by (simp add: power_int_def power_one_over inverse_eq_divide)
  then show ?thesis using False by (simp add: scale2_def divide_inverse)
qed

lemma binade_bounds:
  assumes "0 < x"
  shows "2 powi (binade x) \<le> x \<and> x < 2 powi (binade x + 1)"
proof (cases "1 \<le> x")
  case True
  let ?n = "\<lfloor>x\<rfloor>"
  have n: "0 < ?n" using True by linarith
  from bitlen_bounds[OF n] have b: "2 ^ nat (bitlen ?n - 1) \<le> ?n" "?n < 2 ^ nat (bitlen ?n)" by auto
  have bl: "1 \<le> bitlen ?n"
  proof (rule ccontr)
    assume "\<not> 1 \<le> bitlen ?n"
    then have "nat (bitlen ?n) = 0" by simp
    then show False using b(2) n by simp
  qed
  have e: "binade x = bitlen ?n - 1" using True by (simp add: binade_def)
  have "(2::real) powi (bitlen ?n - 1) = 2 ^ nat (bitlen ?n - 1)" using bl by (simp add: power_int_def)
  also have "\<dots> = of_int (2 ^ nat (bitlen ?n - 1))" by simp
  also have "\<dots> \<le> of_int ?n" using b(1) by (simp only: of_int_le_iff)
  also have "\<dots> \<le> x" by simp
  finally have lo: "2 powi (binade x) \<le> x" unfolding e .
  have "?n + 1 \<le> 2 ^ nat (bitlen ?n)" using b(2) by simp
  then have "real_of_int (?n + 1) \<le> real_of_int (2 ^ nat (bitlen ?n))" by (simp only: of_int_le_iff)
  then have A: "real_of_int ?n + 1 \<le> 2 ^ nat (bitlen ?n)" by simp
  have B: "x < real_of_int ?n + 1" by linarith
  have "x < 2 ^ nat (bitlen ?n)" using A B by linarith
  moreover have "(2::real) powi (bitlen ?n - 1 + 1) = 2 ^ nat (bitlen ?n)" using bl by (simp add: power_int_def)
  ultimately have hi: "x < 2 powi (binade x + 1)" unfolding e by simp
  show ?thesis using lo hi by simp
next
  case False
  let ?y = "1 / x"
  let ?m = "\<lceil>?y\<rceil> - 1"
  have y: "1 < ?y" using False assms by simp
  have m: "0 < ?m" using y by linarith
  from bitlen_bounds[OF m] have b: "2 ^ nat (bitlen ?m - 1) \<le> ?m" "?m < 2 ^ nat (bitlen ?m)" by auto
  have bl: "1 \<le> bitlen ?m"
  proof (rule ccontr)
    assume "\<not> 1 \<le> bitlen ?m"
    then have "nat (bitlen ?m) = 0" by simp
    then show False using b(2) m by simp
  qed
  have e: "binade x = - bitlen ?m" using False by (simp add: binade_def)
  have "\<lceil>?y\<rceil> \<le> 2 ^ nat (bitlen ?m)" using b(2) by simp
  then have "real_of_int \<lceil>?y\<rceil> \<le> real_of_int (2 ^ nat (bitlen ?m))" by (simp only: of_int_le_iff)
  then have C: "real_of_int \<lceil>?y\<rceil> \<le> 2 ^ nat (bitlen ?m)" by simp
  have "?y \<le> real_of_int \<lceil>?y\<rceil>" by (rule le_of_int_ceiling)
  then have "?y \<le> 2 ^ nat (bitlen ?m)" using C by linarith
  then have "1 \<le> x * 2 ^ nat (bitlen ?m)" using assms by (simp add: field_simps)
  then have "1 / 2 ^ nat (bitlen ?m) \<le> x" by (simp add: field_simps)
  moreover have "(2::real) powi (- bitlen ?m) = 1 / 2 ^ nat (bitlen ?m)"
    using bl by (simp add: power_int_def power_one_over)
  ultimately have lo: "2 powi (binade x) \<le> x" unfolding e by simp
  have "real_of_int (2 ^ nat (bitlen ?m - 1)) \<le> real_of_int ?m" using b(1) by (simp only: of_int_le_iff)
  moreover have "real_of_int ?m < ?y" by linarith
  ultimately have "2 ^ nat (bitlen ?m - 1) < ?y" by simp
  then have "x * 2 ^ nat (bitlen ?m - 1) < 1" using assms by (simp add: field_simps)
  then have "x < 1 / 2 ^ nat (bitlen ?m - 1)" by (simp add: field_simps)
  moreover have "(2::real) powi (- bitlen ?m + 1) = 1 / 2 ^ nat (bitlen ?m - 1)"
  proof -
    have "- bitlen ?m + 1 = - (bitlen ?m - 1)" by simp
    moreover have "(2::real) powi (- (bitlen ?m - 1)) = 1 / 2 ^ nat (bitlen ?m - 1)"
      using bl by (simp add: power_int_def power_one_over)
    ultimately show ?thesis by simp
  qed
  ultimately have hi: "x < 2 powi (binade x + 1)" unfolding e by simp
  show ?thesis using lo hi by simp
qed

lemma round_half_even_error: "\<bar>real_of_int (round_half_even m) - m\<bar> \<le> 1 / 2"
  unfolding round_half_even_def Let_def by (auto simp: abs_le_iff; linarith)

lemma nearest_error:
  "\<bar>nearest x - x\<bar> \<le> 2 powi (max (binade \<bar>x\<bar>) (- 1022) - 52) / 2"
proof (cases "x = 0")
  case True
  then show ?thesis by (simp add: nearest_def)
next
  case False
  define p where "p = max (binade \<bar>x\<bar>) (- 1022) - 52"
  define n where "n = round_half_even (scale2 \<bar>x\<bar> (- p))"
  have r: "nearest x = sgn x * scale2 (of_int n) p"
    using False unfolding nearest_def Let_def p_def n_def by simp
  have pos: "(0::real) < 2 powi p" by simp
  have "\<bar>real_of_int n - \<bar>x\<bar> * 2 powi (- p)\<bar> \<le> 1 / 2"
    using round_half_even_error[of "scale2 \<bar>x\<bar> (- p)"] unfolding n_def scale2_powi .
  then have "\<bar>real_of_int n - \<bar>x\<bar> * 2 powi (- p)\<bar> * 2 powi p \<le> 1 / 2 * 2 powi p"
    using pos by (intro mult_right_mono) auto
  moreover have "\<bar>real_of_int n - \<bar>x\<bar> * 2 powi (- p)\<bar> * 2 powi p = \<bar>real_of_int n * 2 powi p - \<bar>x\<bar>\<bar>"
  proof -
    have "\<bar>real_of_int n - \<bar>x\<bar> * 2 powi (- p)\<bar> * 2 powi p
          = \<bar>(real_of_int n - \<bar>x\<bar> * 2 powi (- p)) * 2 powi p\<bar>"
      by (simp add: abs_mult)
    also have "(real_of_int n - \<bar>x\<bar> * 2 powi (- p)) * 2 powi p = real_of_int n * 2 powi p - \<bar>x\<bar>"
      by (simp add: algebra_simps power_int_minus)
    finally show ?thesis .
  qed
  ultimately have a: "\<bar>real_of_int n * 2 powi p - \<bar>x\<bar>\<bar> \<le> 2 powi p / 2" by simp
  have "\<bar>nearest x - x\<bar> = \<bar>real_of_int n * 2 powi p - \<bar>x\<bar>\<bar>"
  proof (cases "0 < x")
    case True then show ?thesis unfolding r scale2_powi by simp
  next
    case F: False
    then have "x < 0" using False by simp
    then show ?thesis unfolding r scale2_powi by (simp add: abs_minus_commute[symmetric])
  qed
  then show ?thesis using a unfolding p_def by simp
qed

lemma bitlen_numeral_step: "bitlen (numeral k) = bitlen (numeral k div 2) + 1"
  by (subst compute_bitlen) simp

lemma bitlen_01: "bitlen 0 = 0" "bitlen 1 = 1"
  by (simp_all add: bitlen_alt_def)

lemmas double_eval = nearest_def binade_def round_half_even_def scale2_def Let_def
  bitlen_numeral_step bitlen_01

lemma round_half_even_nonneg: "0 \<le> m \<Longrightarrow> 0 \<le> round_half_even m"
  unfolding round_half_even_def Let_def by (auto simp: zero_le_floor)

lemma round_half_even_of_int: "round_half_even (of_int k) = k"
  unfolding round_half_even_def Let_def by simp

lemma scale2_nonneg: "0 \<le> x \<Longrightarrow> 0 \<le> scale2 x p"
  unfolding scale2_def by simp

lemma nearest_nonneg: "0 \<le> x \<Longrightarrow> 0 \<le> nearest x"
  unfolding nearest_def Let_def
  by (auto intro!: mult_nonneg_nonneg scale2_nonneg round_half_even_nonneg simp: sgn_if)

lemma powi_less_cancel:
  assumes "(2::real) powi a < 2 powi b"
  shows "a < b"
proof (rule ccontr)
  assume "\<not> a < b"
  then have "b \<le> a" by simp
  then have "(2::real) powi b \<le> 2 powi a" by (intro power_int_increasing) simp_all
  then show False using assms by simp
qed

lemma binade_ge:
  assumes "2 powi k \<le> x"
  shows "k \<le> binade x"
proof -
  have x: "0 < x" using assms by (smt (verit) zero_less_power_int)
  have "(2::real) powi k < 2 powi (binade x + 1)" using binade_bounds[OF x] assms by linarith
  then have "k < binade x + 1" by (rule powi_less_cancel)
  then show ?thesis by simp
qed

lemma binade_less:
  assumes "0 < x" "x < 2 powi k"
  shows "binade x < k"
proof -
  have "(2::real) powi (binade x) < 2 powi k" using binade_bounds[OF assms(1)] assms(2) by linarith
  then show ?thesis by (rule powi_less_cancel)
qed

lemma nearest_error_normal:
  assumes "2 powi (- 1022) \<le> \<bar>x\<bar>"
  shows "\<bar>nearest x - x\<bar> \<le> \<bar>x\<bar> / 2 ^ 53"
proof -
  have x: "0 < \<bar>x\<bar>" using assms by (smt (verit) zero_less_power_int)
  have e: "- 1022 \<le> binade \<bar>x\<bar>" using binade_ge[OF assms] .
  then have m: "max (binade \<bar>x\<bar>) (- 1022) = binade \<bar>x\<bar>" by simp
  have "(2::real) powi (binade \<bar>x\<bar> - 52) / 2 = 2 powi (binade \<bar>x\<bar>) / 2 ^ 53"
    by (simp add: power_int_diff)
  also have "\<dots> \<le> \<bar>x\<bar> / 2 ^ 53" using binade_bounds[OF x] by (simp add: divide_right_mono)
  finally show ?thesis using nearest_error[of x] unfolding m by linarith
qed

lemma nearest_error_any: "\<bar>nearest x - x\<bar> \<le> \<bar>x\<bar> / 2 ^ 53 + 1 / 2 ^ 1075"
proof (cases "2 powi (- 1022) \<le> \<bar>x\<bar>")
  case True
  then show ?thesis using nearest_error_normal[OF True] by (smt (verit) divide_nonneg_pos zero_less_power zero_less_numeral)
next
  case False
  show ?thesis
  proof (cases "x = 0")
    case True
    then show ?thesis by (simp add: nearest_def)
  next
    case nz: False
    then have "binade \<bar>x\<bar> < - 1022" using False by (intro binade_less) auto
    then have m: "max (binade \<bar>x\<bar>) (- 1022) = - 1022" by simp
    have "(2::real) powi (- 1022 - 52) / 2 = 1 / 2 ^ 1075"
      by (simp add: power_int_minus_left divide_simps)
    then have "\<bar>nearest x - x\<bar> \<le> 1 / 2 ^ 1075" using nearest_error[of x] unfolding m by simp
    moreover have "0 \<le> \<bar>x\<bar> / 2 ^ 53" by simp
    ultimately show ?thesis by linarith
  qed
qed

lemma nearest_grid: "\<exists>k::int. nearest x = of_int k / 2 ^ 1074"
proof (cases "x = 0")
  case True
  then show ?thesis by (intro exI[of _ 0]) (simp add: nearest_def)
next
  case False
  define p where "p = max (binade \<bar>x\<bar>) (- 1022) - 52"
  define n where "n = round_half_even (scale2 \<bar>x\<bar> (- p))"
  have r: "nearest x = sgn x * scale2 (of_int n) p"
    using False unfolding nearest_def Let_def p_def n_def by simp
  have p: "- 1074 \<le> p" unfolding p_def by simp
  have "(2::real) powi p = 2 powi (p + 1074) / 2 powi 1074"
    using power_int_diff[of "2::real" "p + 1074" 1074] by simp
  also have "(2::real) powi (p + 1074) = 2 ^ nat (p + 1074)" using p by (simp add: power_int_def)
  finally have pw: "(2::real) powi p = 2 ^ nat (p + 1074) / 2 ^ 1074" by simp
  have s: "sgn x = of_int (sgn (if 0 < x then 1 else - 1))" using False by (simp add: sgn_if)
  have "nearest x = of_int ((if 0 < x then 1 else - 1) * n * 2 ^ nat (p + 1074)) / 2 ^ 1074"
    unfolding r scale2_powi pw using False by (simp add: sgn_if)
  then show ?thesis by blast
qed

lemma nearest_exact_subnormal:
  assumes "\<bar>real_of_int k / 2 ^ 1074\<bar> < 2 powi (- 1022)"
  shows "nearest (of_int k / 2 ^ 1074) = of_int k / 2 ^ 1074"
proof (cases "k = 0")
  case True
  then show ?thesis by (simp add: nearest_def)
next
  case False
  define x where "x = real_of_int k / 2 ^ 1074"
  have nz: "x \<noteq> 0" using False by (simp add: x_def)
  then have "binade \<bar>x\<bar> < - 1022" using assms unfolding x_def[symmetric] by (intro binade_less) auto
  then have m: "max (binade \<bar>x\<bar>) (- 1022) - 52 = - 1074" by simp
  have "\<bar>x\<bar> * 2 ^ 1074 = of_int \<bar>k\<bar>" unfolding x_def by (simp add: abs_divide)
  then have sc: "scale2 \<bar>x\<bar> (- (- 1074)) = of_int \<bar>k\<bar>" unfolding scale2_def by simp
  have k: "real_of_int \<bar>k\<bar> = \<bar>x\<bar> * 2 ^ 1074" unfolding x_def by (simp add: abs_divide)
  have "nearest x = sgn x * scale2 (of_int (round_half_even (scale2 \<bar>x\<bar> (- (- 1074))))) (- 1074)"
    using nz unfolding nearest_def Let_def m by (simp only: if_False)
  also have "\<dots> = sgn x * scale2 (of_int \<bar>k\<bar>) (- 1074)"
    unfolding sc round_half_even_of_int ..
  also have "\<dots> = sgn x * \<bar>x\<bar>" unfolding k scale2_def by simp
  also have "\<dots> = x" by (simp add: sgn_if)
  finally show ?thesis unfolding x_def .
qed

lemma is_double_iff: "is_double x \<longleftrightarrow> nearest x = x \<and> \<bar>x\<bar> < 2 ^ 1024"
  unfolding is_double_def fl_def Let_def by auto

lemma add_error_grid:
  assumes "a = real_of_int ka / 2 ^ 1074" "b = real_of_int kb / 2 ^ 1074"
  shows "\<bar>nearest (a + b) - (a + b)\<bar> \<le> \<bar>a + b\<bar> / 2 ^ 53"
proof (cases "2 powi (- 1022) \<le> \<bar>a + b\<bar>")
  case True
  then show ?thesis by (rule nearest_error_normal)
next
  case False
  have ab: "a + b = of_int (ka + kb) / 2 ^ 1074" unfolding assms by (simp add: add_divide_distrib)
  have "nearest (a + b) = a + b"
    unfolding ab using False unfolding ab by (intro nearest_exact_subnormal) simp
  then show ?thesis by simp
qed

lemma total_bound_linear:
  fixes t A c s1 x y z w :: real
  assumes "t \<le> s1 + c + (y + z)" "s1 + c - (y + z) \<le> t" "s1 \<le> A + x" "A - x \<le> s1"
    and "y \<le> x + w" "w \<le> 1 / 100 * x" "0 \<le> x" "0 \<le> z"
  shows "\<bar>t - (A + c)\<bar> \<le> 201 / 100 * (x + z)"
  using assms by argo

lemma total_bound:
  fixes a b c s1 t u :: real
  assumes nn: "0 \<le> a" "0 \<le> b" "0 \<le> c"
    and u: "0 < u" "u \<le> 1 / 100"
    and s1: "\<bar>s1 - (a + b)\<bar> \<le> u * \<bar>a + b\<bar>"
    and t: "\<bar>t - (s1 + c)\<bar> \<le> u * \<bar>s1 + c\<bar>"
  shows "\<bar>t - (a + b + c)\<bar> \<le> 201 / 100 * (u * (a + b + c))"
proof -
  define A where "A = a + b"
  have A: "0 \<le> A" using nn by (simp add: A_def)
  have uA: "0 \<le> u * A" using u A by simp
  have uc: "0 \<le> u * c" using u nn by simp
  have s1': "s1 \<le> A + u * A" "A - u * A \<le> s1" using s1 A unfolding A_def[symmetric] by linarith+
  have "u * A \<le> 1 * A" using u A by (intro mult_right_mono) linarith+
  then have s1nn: "0 \<le> s1" using s1' by linarith
  then have sc: "0 \<le> s1 + c" using nn by linarith
  have d: "u * (s1 + c) = u * s1 + u * c" "u * (A + u * A) = u * A + u * (u * A)"
    "u * A + u * c = u * (a + b + c)"
    by (simp_all add: algebra_simps A_def)
  have t': "t \<le> s1 + c + (u * s1 + u * c)" "s1 + c - (u * s1 + u * c) \<le> t"
    using t sc unfolding d(1)[symmetric] by linarith+
  have us1: "u * s1 \<le> u * A + u * (u * A)"
    unfolding d(2)[symmetric] using s1'(1) u by (intro mult_left_mono) linarith+
  have uuA: "u * (u * A) \<le> 1 / 100 * (u * A)" using u uA by (intro mult_right_mono) linarith+
  have "\<bar>t - (A + c)\<bar> \<le> 201 / 100 * (u * A + u * c)"
    by (rule total_bound_linear[OF t' s1' us1 uuA uA uc])
  then show ?thesis unfolding d(3) by (simp add: A_def)
qed

lemma quotient_sum_linear:
  fixes wa wb wc qa qb qc xa xb xc eta q uq u :: real
  assumes "\<bar>wa - qa\<bar> \<le> xa + eta" "\<bar>wb - qb\<bar> \<le> xb + eta" "\<bar>wc - qc\<bar> \<le> xc + eta"
    and "qa + qb + qc = q" "xa + xb + xc = uq"
    and "\<bar>q - 1\<bar> \<le> 201 / 100 * uq" "uq \<le> u * (103 / 100)" "0 \<le> uq" "3 * eta \<le> 4 / 5 * u"
  shows "\<bar>wa + wb + wc - 1\<bar> \<le> 4 * u"
  using assms by argo

lemma quotient_sum_bound:
  fixes a b c t u eta wa wb wc :: real
  assumes nn: "0 \<le> a" "0 \<le> b" "0 \<le> c" and pos: "0 < a + b + c"
    and u: "0 < u" "u \<le> 1 / 100" and eta: "0 \<le> eta" "3 * eta \<le> 4 / 5 * u"
    and t: "\<bar>t - (a + b + c)\<bar> \<le> 201 / 100 * (u * (a + b + c))"
    and wa: "\<bar>wa - a / t\<bar> \<le> u * (a / t) + eta"
    and wb: "\<bar>wb - b / t\<bar> \<le> u * (b / t) + eta"
    and wc: "\<bar>wc - c / t\<bar> \<le> u * (c / t) + eta"
  shows "0 < t" and "(a + b + c) / t \<le> 103 / 100" and "\<bar>wa + wb + wc - 1\<bar> \<le> 4 * u"
proof -
  define S where "S = a + b + c"
  have S: "0 < S" using pos by (simp add: S_def)
  have uS: "u * S \<le> 1 / 100 * S" using u S by (intro mult_right_mono) linarith+
  have uSn: "0 \<le> u * S" using u S by simp
  have t': "\<bar>t - S\<bar> \<le> 201 / 100 * (u * S)" using t by (simp add: S_def)
  define uS' where "uS' = u * S"
  have tl: "S * (9799 / 10000) \<le> t" using t' uS uSn unfolding uS'_def[symmetric] by linarith
  then show tp: "0 < t" using S by linarith
  define q where "q = S / t"
  have qS: "q * t = S" using tp by (simp add: q_def)
  have qp: "0 < q" using S tp by (simp add: q_def)
  have "q * (S * (9799 / 10000)) \<le> q * t" using tl qp by (intro mult_left_mono) linarith+
  then have "S * (q * (9799 / 10000)) \<le> S * 1" unfolding qS by (simp add: mult.commute mult.left_commute)
  then have "q * (9799 / 10000) \<le> 1" using S by (simp only: mult_le_cancel_left_pos)
  then have q1: "q \<le> 103 / 100" by linarith
  then show "(a + b + c) / t \<le> 103 / 100" by (simp add: q_def S_def)
  have uq: "u * q \<le> u * (103 / 100)" using q1 u by (intro mult_left_mono) linarith+
  have uqn: "0 \<le> u * q" using u qp by simp
  have "q - 1 = (S - t) / t" using tp by (simp add: q_def diff_divide_distrib)
  then have "\<bar>q - 1\<bar> = \<bar>S - t\<bar> / t" using tp by (simp add: abs_divide)
  also have "\<dots> \<le> (201 / 100 * (u * S)) / t" using t' tp by (intro divide_right_mono) (simp_all add: abs_minus_commute)
  also have "\<dots> = 201 / 100 * (u * q)" by (simp add: q_def)
  finally have q': "\<bar>q - 1\<bar> \<le> 201 / 100 * (u * q)" .
  have sum: "a / t + b / t + c / t = q" by (simp add: q_def S_def add_divide_distrib)
  have usum: "u * (a / t) + u * (b / t) + u * (c / t) = u * q"
    unfolding sum[symmetric] by (simp add: algebra_simps)
  show "\<bar>wa + wb + wc - 1\<bar> \<le> 4 * u"
    by (rule quotient_sum_linear[OF wa wb wc sum usum q' uq uqn eta(2)])
qed

lemma fl_nonneg: "0 \<le> x \<Longrightarrow> fl x = (if 2 ^ 1024 \<le> nearest x then PosInf else Finite (nearest x))"
  using nearest_nonneg[of x] unfolding fl_def Let_def by auto

lemma set_weights_overflow:
  assumes "fadd (fadd (Finite a) (Finite b)) (Finite c) = PosInf"
  shows "set_weights (Finite a) (Finite b) (Finite c)
         = Inr \<lparr>s_rf = Finite 0, s_ae = Finite 0, s_kmeans = Finite 0\<rparr>"
  unfolding set_weights_def Let_def assms by simp

lemma set_weights_finite:
  assumes "fadd (fadd (Finite a) (Finite b)) (Finite c) = Finite t" "t \<noteq> 0"
  shows "set_weights (Finite a) (Finite b) (Finite c)
         = Inr \<lparr>s_rf = fl (a / t), s_ae = fl (b / t), s_kmeans = fl (c / t)\<rparr>"
  unfolding set_weights_def Let_def assms(1) using assms(2) by simp

lemma quotient_finite:
  assumes "0 \<le> a" "0 < t" "a / t \<le> 103 / 100"
  shows "fl (a / t) = Finite (nearest (a / t))"
    and "\<bar>nearest (a / t) - a / t\<bar> \<le> 1 / 2 ^ 53 * (a / t) + 1 / 2 ^ 1075"
proof -
  have q: "0 \<le> a / t" using assms by simp
  show e: "\<bar>nearest (a / t) - a / t\<bar> \<le> 1 / 2 ^ 53 * (a / t) + 1 / 2 ^ 1075"
    using nearest_error_any[of "a / t"] q by simp
  have "1 / 2 ^ 53 * (a / t) \<le> 1 * (a / t)" using q by (intro mult_right_mono) simp_all
  moreover have "(1::real) / 2 ^ 1075 \<le> 1" by simp
  ultimately have "nearest (a / t) \<le> 4" using e assms(3) by linarith
  moreover have "(4::real) < 2 ^ 1024" by simp
  ultimately have "\<not> 2 ^ 1024 \<le> nearest (a / t)" by linarith
  then show "fl (a / t) = Finite (nearest (a / t))" using fl_nonneg[OF q] by simp
qed

lemma lower_linear:
  fixes t S x :: real
  assumes "\<bar>t - S\<bar> \<le> 201 / 100 * x" "x \<le> 1 / 100 * S" "0 \<le> x"
  shows "S * (9799 / 10000) \<le> t"
  using assms by argo

lemmas float_eval = fl_def is_double_def set_weights_def double_eval

section \<open>Auxiliary facts: the optimizer\<close>

lemma candidate_score_weights [simp]:
  "candidate_score (e\<lparr>weights := w0\<rparr>) X y w = candidate_score e X y w"
  by (simp add: candidate_score_def)






lemma f1_key_error:
  assumes "1 \<notin> set y_true" "1 \<notin> set y_pred" "length y_pred = length y_true"
  shows "classification_report_f1 y_true y_pred = Inl (KeyError ''1'')"
  using assms by (simp add: classification_report_f1_def)

lemma double_literals:
  "nearest (1 / 10) = 3602879701896397 / 2 ^ 55"
  "nearest (2 / 10) = 3602879701896397 / 2 ^ 54"
  "nearest (6 / 10) = 5404319552844595 / 2 ^ 53"
  "nearest (8 / 10) = 3602879701896397 / 2 ^ 52"
  by (simp_all add: double_eval)

lemma linspace_rf:
  "linspace (3602879701896397 / 2 ^ 54) (3602879701896397 / 2 ^ 52) 5
   = [3602879701896397 / 2 ^ 54, 6305039478318695 / 2 ^ 54, 1 / 2,
      2927339757790823 / 2 ^ 52, 3602879701896397 / 2 ^ 52]"
  by (simp add: linspace_def double_eval upt_rec[of _ "numeral _"] upt_rec[of 0] )

lemma linspace_ae:
  "linspace (3602879701896397 / 2 ^ 55) (5404319552844595 / 2 ^ 53) 5
   = [3602879701896397 / 2 ^ 55, 8106479329266893 / 2 ^ 55, 3152519739159347 / 2 ^ 53, 4278419646001971 / 2 ^ 53, 5404319552844595 / 2 ^ 53]"
  by (simp add: linspace_def double_eval upt_rec[of _ "numeral _"] upt_rec[of 0])

lemma weight_combinations_list:
  "weight_combinations =
     [\<lparr>w_rf = 3602879701896397 / 2 ^ 54, w_ae = 8106479329266893 / 2 ^ 55, w_kmeans = 5179139571476071 / 2 ^ 53\<rparr>,
      \<lparr>w_rf = 3602879701896397 / 2 ^ 54, w_ae = 3152519739159347 / 2 ^ 53, w_kmeans = 4053239664633447 / 2 ^ 53\<rparr>,
      \<lparr>w_rf = 3602879701896397 / 2 ^ 54, w_ae = 4278419646001971 / 2 ^ 53, w_kmeans = 2927339757790823 / 2 ^ 53\<rparr>,
      \<lparr>w_rf = 3602879701896397 / 2 ^ 54, w_ae = 5404319552844595 / 2 ^ 53, w_kmeans = 1801439850948199 / 2 ^ 53\<rparr>,
      \<lparr>w_rf = 6305039478318695 / 2 ^ 54, w_ae = 3602879701896397 / 2 ^ 55, w_kmeans = 4953959590107545 / 2 ^ 53\<rparr>,
      \<lparr>w_rf = 6305039478318695 / 2 ^ 54, w_ae = 8106479329266893 / 2 ^ 55, w_kmeans = 3828059683264921 / 2 ^ 53\<rparr>,
      \<lparr>w_rf = 6305039478318695 / 2 ^ 54, w_ae = 3152519739159347 / 2 ^ 53, w_kmeans = 2702159776422297 / 2 ^ 53\<rparr>,
      \<lparr>w_rf = 6305039478318695 / 2 ^ 54, w_ae = 4278419646001971 / 2 ^ 53, w_kmeans = 1576259869579673 / 2 ^ 53\<rparr>,
      \<lparr>w_rf = 1 / 2 ^ 1, w_ae = 3602879701896397 / 2 ^ 55, w_kmeans = 3602879701896397 / 2 ^ 53\<rparr>,
      \<lparr>w_rf = 1 / 2 ^ 1, w_ae = 8106479329266893 / 2 ^ 55, w_kmeans = 2476979795053773 / 2 ^ 53\<rparr>,
      \<lparr>w_rf = 1 / 2 ^ 1, w_ae = 3152519739159347 / 2 ^ 53, w_kmeans = 1351079888211149 / 2 ^ 53\<rparr>,
      \<lparr>w_rf = 2927339757790823 / 2 ^ 52, w_ae = 3602879701896397 / 2 ^ 55, w_kmeans = 9007199254740987 / 2 ^ 55\<rparr>,
      \<lparr>w_rf = 2927339757790823 / 2 ^ 52, w_ae = 8106479329266893 / 2 ^ 55, w_kmeans = 4503599627370491 / 2 ^ 55\<rparr>]"
  unfolding weight_combinations_def double_literals linspace_rf linspace_ae
  by (simp add: weight_grid_def double_eval)






text \<open>
  The grid pair \<open>(0.8, 0.1)\<close> is no candidate: in doubles \<^verbatim>\<open>1.0 - 0.8 - 0.1\<close> is
  0.09999999999999995, below the double \<^verbatim>\<open>0.1\<close>.
\<close>

lemma boundary_candidate_dropped:
  "nearest (nearest (1 - 3602879701896397 / 2 ^ 52) - 3602879701896397 / 2 ^ 55)
     = 3602879701896395 / 2 ^ 55
   \<and> (3602879701896395 / 2 ^ 55 :: real) < nearest (1 / 10)
   \<and> list_all (\<lambda>w. w_rf w \<noteq> 3602879701896397 / 2 ^ 52) weight_combinations"
  unfolding weight_combinations_list by (simp add: double_eval)

text \<open>
  The optimizer is only called by \<^verbatim>\<open>train\<close>, before \<^verbatim>\<open>self.is_trained\<close> is set: on an
  ensemble that was not trained or loaded before, the first candidate's prediction raises.
\<close>

lemma optimize_weights_untrained:
  assumes "\<not> is_trained e" "0 < n_trials" "weight_combinations = w # ws"
  shows "optimize_weights e X_val y_val n_trials
           = Inl (ValueError ''Ensemble must be trained before making predictions'')"
proof -
  have "candidate_score e X_val y_val w = Inl (ValueError ''Ensemble must be trained before making predictions'')"
    using assms(1) by (simp add: candidate_score_def predict_def)
  moreover obtain k where "n_trials = Suc k" using assms(2) by (cases n_trials) auto
  ultimately show ?thesis unfolding optimize_weights_def assms(3) by simp
qed

text \<open>
  Without positive labels, a first candidate that predicts no positive row either finds no
  entry \<^verbatim>\<open>'1'\<close> in the report.
\<close>

lemma optimize_weights_key_error:
  assumes "1 \<notin> set y_val" and "length y_val = length X_val" and "0 < n_trials"
    and "weight_combinations = w # ws"
    and "predict (e\<lparr>weights := w\<rparr>) X_val = Inr (pred, proba)" and "1 \<notin> set pred"
  shows "optimize_weights e X_val y_val n_trials = Inl (KeyError ''1'')"
proof -
  have "length pred = length y_val" using predict_length[OF assms(5)] assms(2) by simp
  then have "candidate_score e X_val y_val w = Inl (KeyError ''1'')"
    using assms(1,5,6) f1_key_error by (simp add: candidate_score_def)
  moreover obtain k where "n_trials = Suc k" using assms(3) by (cases n_trials) auto
  ultimately show ?thesis unfolding optimize_weights_def assms(4) by simp
qed

section \<open>Weighted voting\<close>




section \<open>Ordering of the voting policies\<close>

text \<open>
  Claim C2, the part that holds. For the same adapter outputs, every row labelled 1 under the
  \<open>unanimous\<close> policy is labelled 1 under the \<open>majority\<close> policy; and whenever the
  unanimous prediction returns, so does the majority prediction.
\<close>

theorem unanimous_subset_majority:
  assumes "predict (e\<lparr>voting_method := Unanimous\<rparr>) X = Inr (pred_u, proba_u)"
  shows "\<exists>pred_m proba_m.
           predict (e\<lparr>voting_method := Majority\<rparr>) X = Inr (pred_m, proba_m)
           \<and> length pred_u = length X \<and> length pred_m = length X
           \<and> {i. i < length X \<and> pred_u ! i = 1} \<subseteq> {i. i < length X \<and> pred_m ! i = 1}"
proof -
  from predict_Inr[OF assms] obtain rf_proba ae_pred ae_scores ae_proba kmeans_proba where
    h: "is_trained e" "rf_predict (rf_model e) (map rf_score X) = Inr rf_proba"
       "ae_predict (ae_model e) (map ae_error X) = Inr (ae_pred, ae_scores)"
       "minmax_normalize ae_scores = Inr ae_proba"
       "predict_fraud_probability (kmeans_model e) (map km_cluster X) = Inr kmeans_proba"
    and l: "length rf_proba = length X" "length ae_pred = length X"
       "length ae_proba = length X" "length kmeans_proba = length X"
    and r: "(pred_u, proba_u) = combine (weights e) Unanimous rf_proba ae_pred ae_proba kmeans_proba"
    by auto
  let ?rb = "gt_int (1 / 2) rf_proba" and ?kb = "gt_int (1 / 2) kmeans_proba"
  let ?votes = "map3 (\<lambda>r a k. r + a + k) ?rb ae_pred ?kb"
  let ?pm = "map (\<lambda>v. if v \<ge> 2 then 1 else 0) ?votes"
  have pu: "pred_u = map3 (\<lambda>r a k. and (and r a) k) ?rb ae_pred ?kb"
    using r by (simp add: combine_def Let_def)
  have m: "predict (e\<lparr>voting_method := Majority\<rparr>) X = Inr (?pm, map (\<lambda>v. real_of_int v / 3) ?votes)"
    using predict_eq[of "e\<lparr>voting_method := Majority\<rparr>" X rf_proba ae_pred ae_scores ae_proba kmeans_proba] h
    by (simp add: combine_def Let_def)
  have lv: "length ?votes = length X" by (rule length_map3) (simp_all add: l length_gt_int)
  have lu: "length pred_u = length X" unfolding pu by (rule length_map3) (simp_all add: l length_gt_int)
  obtain t where t: "ae_pred = gt_int t (map ae_error X)" using ae_predict_Inr[OF h(3)] by blast
  have sub: "pred_m' ! i = 1" if "i < length X" "pred_u ! i = 1" "pred_m' = ?pm" for i pred_m'
  proof -
    have rb: "?rb ! i \<in> {0, 1}" using that(1) l by (simp add: nth_gt_int)
    have kb: "?kb ! i \<in> {0, 1}" using that(1) l by (simp add: nth_gt_int)
    have ab: "ae_pred ! i \<in> {0, 1}" unfolding t using that(1) by (simp add: nth_gt_int)
    have "pred_u ! i = and (and (?rb ! i) (ae_pred ! i)) (?kb ! i)"
      unfolding pu using that(1) l by (simp add: nth_map3 length_gt_int)
    then have "?rb ! i + ae_pred ! i + ?kb ! i \<ge> 2" using that(2) and_bits01(2)[OF rb ab kb] by simp
    moreover have "?votes ! i = ?rb ! i + ae_pred ! i + ?kb ! i"
      using that(1) l by (simp add: nth_map3 length_gt_int)
    ultimately show ?thesis using that(1,3) lv by simp
  qed
  show ?thesis using m lu lv sub by auto
qed

text \<open>
  An instance: a row on which all three adapters vote 1.
\<close>

theorem unanimous_subset_majority_witness:
  "\<exists>pred_m proba_m.
      predict (fitted_ensemble\<lparr>voting_method := Majority\<rparr>) [\<lparr>rf_score = 3 / 4, ae_error = 2, km_cluster = 2\<rparr>]
        = Inr (pred_m, proba_m)
      \<and> length [1::int] = length [\<lparr>rf_score = 3 / 4, ae_error = 2, km_cluster = 2\<rparr>]
      \<and> length pred_m = length [\<lparr>rf_score = 3 / 4, ae_error = 2, km_cluster = 2\<rparr>]
      \<and> {i. i < length [\<lparr>rf_score = 3 / 4, ae_error = 2, km_cluster = 2\<rparr>] \<and> [1::int] ! i = 1}
          \<subseteq> {i. i < length [\<lparr>rf_score = 3 / 4, ae_error = 2, km_cluster = 2\<rparr>] \<and> pred_m ! i = 1}"
proof (rule unanimous_subset_majority[of fitted_ensemble _ _ "[0]"])
  show "predict (fitted_ensemble\<lparr>voting_method := Unanimous\<rparr>) [\<lparr>rf_score = 3 / 4, ae_error = 2, km_cluster = 2\<rparr>]
     = Inr ([1], [0])"
  by (simp add: fitted_ensemble_def predict_def rf_predict_def ae_predict_def gt_int_def
      minmax_normalize_def predict_fraud_probability_def km_predict_def combine_def)
qed

text \<open>
  Claim C2 as stated also puts the \<open>majority\<close> labels inside the \<open>weighted\<close> labels. On a
  row with classifier probability 5/8, cluster fraud rate 5/8 and a detector that does not
  flag it, two of three votes are 1, so the majority label is 1; the weighted probability under
  the default weights is 1/2 * 5/8 + 1/5 * 5/8 = 7/16, so the weighted label is 0.
\<close>

theorem majority_not_subset_weighted_counterexample:
  "predict (fitted_ensemble\<lparr>voting_method := Majority\<rparr>) [\<lparr>rf_score = 5 / 8, ae_error = 0, km_cluster = 1\<rparr>]
     = Inr ([1], [2 / 3])
   \<and> predict (fitted_ensemble\<lparr>voting_method := Weighted\<rparr>) [\<lparr>rf_score = 5 / 8, ae_error = 0, km_cluster = 1\<rparr>]
     = Inr ([0], [7 / 16])"
  by (simp add: fitted_ensemble_def predict_def rf_predict_def ae_predict_def gt_int_def
      minmax_normalize_def predict_fraud_probability_def km_predict_def combine_def)

section \<open>Fraud probabilities need identified clusters\<close>

text \<open>
  Claim C7. While the fraud-cluster list is empty, \<open>predict_fraud_probability\<close> raises the
  ValueError of the missing identification for every input; it returns no probability vector.
\<close>

theorem predict_fraud_probability_unidentified:
  "fraud_clusters m = [] \<Longrightarrow>
     predict_fraud_probability m assigned
       = Inl (ValueError ''Fraud clusters must be identified before predicting fraud probability'')"
  by (simp add: predict_fraud_probability_def)

text \<open>
  An instance: a trained detector on which \<open>identify_fraud_clusters\<close> was never run.
\<close>

theorem predict_fraud_probability_unidentified_witness:
  "predict_fraud_probability (km_init\<lparr>km_is_trained := True\<rparr>) [0, 1, 1]
       = Inl (ValueError ''Fraud clusters must be identified before predicting fraud probability'')"
  using predict_fraud_probability_unidentified[of "km_init\<lparr>km_is_trained := True\<rparr>" "[0, 1, 1]"]
  by (simp add: km_init_def)

section \<open>Ranges of the prediction\<close>




section \<open>The detector threshold\<close>

text \<open>
  Training on a table with at least one row stores as threshold the 95th percentile of the
  reconstruction errors of the training rows: a value between the two order statistics around
  rank \<open>0.95 * (n - 1)\<close>, hence between the smallest and the largest error. Prediction
  afterwards compares every new row's error with this stored value. How the errors depend on
  the seed of the fit is outside the model.
\<close>

lemma ae_train_stores_percentile:
  assumes "training_errors \<noteq> []"
  shows "\<exists>m'. ae_train m training_errors = Inr m'
           \<and> ae_is_trained m'
           \<and> threshold m' = Some (percentile training_errors 95)
           \<and> Min (set training_errors) \<le> percentile training_errors 95
           \<and> percentile training_errors 95 \<le> Max (set training_errors)
           \<and> sort training_errors ! nat \<lfloor>95 / 100 * real (length training_errors - 1)\<rfloor>
               \<le> percentile training_errors 95
           \<and> percentile training_errors 95
               \<le> sort training_errors ! min (nat \<lfloor>95 / 100 * real (length training_errors - 1)\<rfloor> + 1)
                                             (length training_errors - 1)
           \<and> (\<forall>errors. errors \<noteq> [] \<longrightarrow>
                 ae_predict m' errors = Inr (gt_int (percentile training_errors 95) errors, errors))"
proof -
  define m' where "m' = m\<lparr>threshold := Some (percentile training_errors 95), ae_is_trained := True\<rparr>"
  have tr: "ae_train m training_errors = Inr m'" using assms by (simp add: ae_train_def m'_def)
  have q: "(0::real) \<le> 95" "(95::real) \<le> 100" by simp_all
  note b = percentile_bracket[OF assms q]
  have 0: "ae_is_trained m'" by (simp add: m'_def)
  have 1: "threshold m' = Some (percentile training_errors 95)" by (simp add: m'_def)
  have 2: "Min (set training_errors) \<le> percentile training_errors 95"
    by (rule percentile_ge_Min[OF assms q])
  have 3: "percentile training_errors 95 \<le> Max (set training_errors)"
    by (rule percentile_le_Max[OF assms q])
  have 4: "\<forall>errors. errors \<noteq> [] \<longrightarrow>
               ae_predict m' errors = Inr (gt_int (percentile training_errors 95) errors, errors)"
    by (simp add: ae_predict_def m'_def)
  show ?thesis using tr 0 1 2 3 4 b by blast
qed

lemma ae_train_example:
  "ae_train ae_init [3, 1, 2] = Inr \<lparr>ae_is_trained = True, threshold = Some (29 / 10)\<rparr>
   \<and> ae_predict \<lparr>ae_is_trained = True, threshold = Some (29 / 10)\<rparr> [1, 5, 29 / 10, 3]
       = Inr ([0, 1, 0, 1], [1, 5, 29 / 10, 3])"
  by (simp add: ae_train_def ae_init_def ae_predict_def percentile_def Let_def gt_int_def)

section \<open>Identified fraud clusters are never empty\<close>

text \<open>
  Claim C10. Every successful \<open>identify_fraud_clusters\<close> leaves a non-empty fraud-cluster
  list, since the percentile of the cluster fraud rates is at most their maximum
  (\<open>percentile_le_Max\<close>). Afterwards \<open>predict_fraud_probability\<close> never raises the error of
  the missing identification, and returns on every table with at least one row.
\<close>

theorem identify_fraud_clusters_nonempty:
  assumes "identify_fraud_clusters m assigned y threshold_percentile = Inr m'"
  shows "fraud_clusters m' \<noteq> []
         \<and> (\<forall>assigned'. predict_fraud_probability m' assigned'
               \<noteq> Inl (ValueError ''Fraud clusters must be identified before predicting fraud probability''))
         \<and> (\<forall>assigned'. assigned' \<noteq> [] \<longrightarrow> (\<exists>p. predict_fraud_probability m' assigned' = Inr p))"
proof -
  have ne: "fraud_clusters m' \<noteq> []" using identify_Inr[OF assms] .
  from assms have tr: "km_is_trained m'" and r: "cluster_fraud_rates m' \<noteq> None"
    by (auto simp: identify_fraud_clusters_def km_predict_def Let_def split: if_splits sum.splits)
  have "predict_fraud_probability m' a
               \<noteq> Inl (ValueError ''Fraud clusters must be identified before predicting fraud probability'')" for a
    using ne tr r by (auto simp: predict_fraud_probability_def km_predict_def)
  moreover have "\<exists>p. predict_fraud_probability m' a = Inr p" if "a \<noteq> []" for a
    using ne tr r that by (auto simp: predict_fraud_probability_def km_predict_def)
  ultimately show ?thesis using ne by blast
qed

text \<open>
  An instance: eleven rows in three clusters with fraud rates 0, 5/8 and 1.
\<close>

theorem identify_fraud_clusters_nonempty_witness:
  "fraud_clusters \<lparr>km_is_trained = True, fraud_clusters = [2],
        cluster_fraud_rates = Some [(0, 0), (1, 5 / 8), (2, 1)],
        fraud_rate_threshold = Some (37 / 40)\<rparr> = [2]
   \<and> predict_fraud_probability \<lparr>km_is_trained = True, fraud_clusters = [2],
        cluster_fraud_rates = Some [(0, 0), (1, 5 / 8), (2, 1)],
        fraud_rate_threshold = Some (37 / 40)\<rparr> [1, 2, 0, 3]
       \<noteq> Inl (ValueError ''Fraud clusters must be identified before predicting fraud probability'')
   \<and> predict_fraud_probability \<lparr>km_is_trained = True, fraud_clusters = [2],
        cluster_fraud_rates = Some [(0, 0), (1, 5 / 8), (2, 1)],
        fraud_rate_threshold = Some (37 / 40)\<rparr> [1, 2, 0, 3] = Inr [5 / 8, 1, 0, 0]"
proof -
  have i: "identify_fraud_clusters (km_init\<lparr>km_is_trained := True\<rparr>)
          [0, 0, 1, 1, 1, 1, 1, 1, 1, 1, 2] [0, 0, 1, 1, 1, 1, 1, 0, 0, 0, 1] 90
        = Inr \<lparr>km_is_trained = True, fraud_clusters = [2],
        cluster_fraud_rates = Some [(0, 0), (1, 5 / 8), (2, 1)],
        fraud_rate_threshold = Some (37 / 40)\<rparr>"
    by (simp add: identify_fraud_clusters_def km_init_def km_predict_def unique_def
        cluster_fraud_rate_def mean_int_def percentile_def Let_def)
  have p: "predict_fraud_probability \<lparr>km_is_trained = True, fraud_clusters = [2],
        cluster_fraud_rates = Some [(0, 0), (1, 5 / 8), (2, 1)],
        fraud_rate_threshold = Some (37 / 40)\<rparr> [1, 2, 0, 3] = Inr [5 / 8, 1, 0, 0]"
    by (simp add: predict_fraud_probability_def km_predict_def)
  show ?thesis using identify_fraud_clusters_nonempty[OF i] p by simp
qed

section \<open>The grid search over the weights\<close>




section \<open>Validation labels without positives\<close>




section \<open>Normalisation of the weights\<close>

text \<open>
  Claim C3, as the code has it, in double-precision arithmetic. For non-negative doubles with a
  positive sum \<open>set_weights\<close> returns. When the total, two rounded additions, is finite, it is
  positive and differs from the exact sum by at most \<open>3 / 2 ^ 53\<close> of it, and the stored
  weights are the three inputs divided by this total, each quotient rounded: finite,
  non-negative doubles whose exact sum differs from 1 by at most \<open>1 / 2 ^ 51\<close>. When the total
  overflows to infinity, the three stored weights are 0.
\<close>

theorem set_weights_normalized:
  assumes "is_double a" "is_double b" "is_double c"
    and "0 \<le> a" "0 \<le> b" "0 \<le> c"
    and "0 < a + b + c"
  shows "(\<exists>t rf ae km.
            fadd (fadd (Finite a) (Finite b)) (Finite c) = Finite t
          \<and> 0 < t \<and> \<bar>t - (a + b + c)\<bar> \<le> 3 * (a + b + c) / 2 ^ 53
          \<and> set_weights (Finite a) (Finite b) (Finite c)
              = Inr \<lparr>s_rf = Finite rf, s_ae = Finite ae, s_kmeans = Finite km\<rparr>
          \<and> rf = nearest (a / t) \<and> ae = nearest (b / t) \<and> km = nearest (c / t)
          \<and> 0 \<le> rf \<and> 0 \<le> ae \<and> 0 \<le> km
          \<and> \<bar>rf + ae + km - 1\<bar> \<le> 1 / 2 ^ 51)
       \<or> (fadd (fadd (Finite a) (Finite b)) (Finite c) = PosInf
          \<and> set_weights (Finite a) (Finite b) (Finite c)
              = Inr \<lparr>s_rf = Finite 0, s_ae = Finite 0, s_kmeans = Finite 0\<rparr>)"
proof -
  define u :: real where "u = 1 / 2 ^ 53"
  define eta :: real where "eta = 1 / 2 ^ 1075"
  have u: "0 < u" "u \<le> 1 / 100" by (simp_all add: u_def)
  have eta: "0 \<le> eta" "3 * eta \<le> 4 / 5 * u" by (simp_all add: u_def eta_def)
  obtain ka where ka: "a = of_int ka / 2 ^ 1074"
    using nearest_grid[of a] assms(1) by (auto simp: is_double_iff)
  obtain kb where kb: "b = of_int kb / 2 ^ 1074"
    using nearest_grid[of b] assms(2) by (auto simp: is_double_iff)
  obtain kc where kc: "c = of_int kc / 2 ^ 1074"
    using nearest_grid[of c] assms(3) by (auto simp: is_double_iff)
  define s1 where "s1 = nearest (a + b)"
  obtain k1 where k1: "s1 = of_int k1 / 2 ^ 1074" using nearest_grid[of "a + b"] unfolding s1_def by blast
  have ab: "0 \<le> a + b" using assms(4,5) by simp
  have s1nn: "0 \<le> s1" unfolding s1_def using ab by (rule nearest_nonneg)
  have e1: "\<bar>s1 - (a + b)\<bar> \<le> u * \<bar>a + b\<bar>"
    using add_error_grid[OF ka kb] unfolding s1_def u_def by simp
  define M :: real where "M = 2 ^ 1024"
  have f1: "fl (a + b) = (if M \<le> s1 then PosInf else Finite s1)"
    using fl_nonneg[OF ab] unfolding s1_def M_def .
  define t where "t = nearest (s1 + c)"
  have sc: "0 \<le> s1 + c" using s1nn assms(6) by simp
  have e2: "\<bar>t - (s1 + c)\<bar> \<le> u * \<bar>s1 + c\<bar>"
    using add_error_grid[OF k1 kc] unfolding t_def u_def by simp
  have f2: "fl (s1 + c) = (if M \<le> t then PosInf else Finite t)"
    using fl_nonneg[OF sc] unfolding t_def M_def .
  show ?thesis
  proof (cases "M \<le> s1 \<or> M \<le> t")
    case True
    then have "fadd (fadd (Finite a) (Finite b)) (Finite c) = PosInf"
      by (auto simp: f1 f2)
    then show ?thesis using set_weights_overflow by blast
  next
    case False
    then have tot: "fadd (fadd (Finite a) (Finite b)) (Finite c) = Finite t"
      by (auto simp: f1 f2)
    have tb: "\<bar>t - (a + b + c)\<bar> \<le> 201 / 100 * (u * (a + b + c))"
      by (rule total_bound[OF assms(4-6) u e1 e2])
    have S: "0 < a + b + c" by (rule assms(7))
    have uS: "u * (a + b + c) \<le> 1 / 100 * (a + b + c)" using u S by (intro mult_right_mono) linarith+
    have uSn: "0 \<le> u * (a + b + c)" using u S by simp
    have tl: "(a + b + c) * (9799 / 10000) \<le> t"
      by (rule lower_linear[OF tb uS uSn])
    then have tp: "0 < t" using S by argo
    have qle: "(a + b + c) / t \<le> 103 / 100"
    proof -
      have "(a + b + c) \<le> 103 / 100 * t" using tl S by argo
      then show ?thesis using tp by (simp add: pos_divide_le_eq)
    qed
    have "a / t \<le> (a + b + c) / t" using assms(4-6) tp by (intro divide_right_mono) simp_all
    then have qa: "a / t \<le> 103 / 100" using qle by (rule order_trans) 
    have "b / t \<le> (a + b + c) / t" using assms(4-6) tp by (intro divide_right_mono) simp_all
    then have qb: "b / t \<le> 103 / 100" using qle by (rule order_trans)
    have "c / t \<le> (a + b + c) / t" using assms(4-6) tp by (intro divide_right_mono) simp_all
    then have qc: "c / t \<le> 103 / 100" using qle by (rule order_trans)
    note A = quotient_finite[OF assms(4) tp qa]
    note B = quotient_finite[OF assms(5) tp qb]
    note C = quotient_finite[OF assms(6) tp qc]
    have sw: "set_weights (Finite a) (Finite b) (Finite c)
              = Inr \<lparr>s_rf = Finite (nearest (a / t)), s_ae = Finite (nearest (b / t)),
                     s_kmeans = Finite (nearest (c / t))\<rparr>"
      using set_weights_finite[OF tot] tp unfolding A(1) B(1) C(1) by simp
    have nn: "0 \<le> nearest (a / t)" "0 \<le> nearest (b / t)" "0 \<le> nearest (c / t)"
      using assms(4-6) tp by (simp_all add: nearest_nonneg)
    have "\<bar>nearest (a / t) + nearest (b / t) + nearest (c / t) - 1\<bar> \<le> 4 * u"
      by (rule quotient_sum_bound(3)[OF assms(4-7) u eta tb A(2)[folded u_def eta_def]
            B(2)[folded u_def eta_def] C(2)[folded u_def eta_def]])
    then have sum: "\<bar>nearest (a / t) + nearest (b / t) + nearest (c / t) - 1\<bar> \<le> 1 / 2 ^ 51"
      unfolding u_def by simp
    have "201 / 100 * (u * (a + b + c)) \<le> 3 * (a + b + c) / 2 ^ 53"
      using S unfolding u_def by simp
    then have tb': "\<bar>t - (a + b + c)\<bar> \<le> 3 * (a + b + c) / 2 ^ 53" using tb by linarith
    show ?thesis using tot tp tb' sw nn sum by blast
  qed
qed

text \<open>
  An instance: \<^verbatim>\<open>set_weights(2.0, 1.0, 1.0)\<close>.
\<close>

theorem set_weights_normalized_witness:
  "(\<exists>t rf ae km.
            fadd (fadd (Finite 2) (Finite 1)) (Finite 1) = Finite t
          \<and> 0 < t \<and> \<bar>t - (2 + 1 + 1)\<bar> \<le> 3 * (2 + 1 + 1) / 2 ^ 53
          \<and> set_weights (Finite 2) (Finite 1) (Finite 1)
              = Inr \<lparr>s_rf = Finite rf, s_ae = Finite ae, s_kmeans = Finite km\<rparr>
          \<and> rf = nearest (2 / t) \<and> ae = nearest (1 / t) \<and> km = nearest (1 / t)
          \<and> 0 \<le> rf \<and> 0 \<le> ae \<and> 0 \<le> km
          \<and> \<bar>rf + ae + km - 1\<bar> \<le> 1 / 2 ^ 51)
       \<or> (fadd (fadd (Finite 2) (Finite 1)) (Finite 1) = PosInf
          \<and> set_weights (Finite 2) (Finite 1) (Finite 1)
              = Inr \<lparr>s_rf = Finite 0, s_ae = Finite 0, s_kmeans = Finite 0\<rparr>)"
  by (rule set_weights_normalized) (simp_all add: float_eval)

text \<open>
  Claim C3 as stated has the stored weights sum to exactly 1.0. For
  \<^verbatim>\<open>set_weights(0.1, 0.2, 0.3)\<close> the literals are the doubles of the first three lines, the
  three stored quotients sum to \<open>1 - 5 / 2 ^ 55\<close>, and added up in doubles they give
  0.9999999999999999. For \<^verbatim>\<open>set_weights(2.0 ** 1023, 2.0 ** 1023, 0.0)\<close> the total is
  infinite and the three stored weights are 0.
\<close>

theorem set_weights_sum_counterexample:
  "fl (1 / 10) = Finite (3602879701896397 / 2 ^ 55)
   \<and> fl (2 / 10) = Finite (3602879701896397 / 2 ^ 54)
   \<and> fl (3 / 10) = Finite (5404319552844595 / 2 ^ 54)
   \<and> set_weights (Finite (3602879701896397 / 2 ^ 55)) (Finite (3602879701896397 / 2 ^ 54))
        (Finite (5404319552844595 / 2 ^ 54))
      = Inr \<lparr>s_rf = Finite (6004799503160661 / 2 ^ 55), s_ae = Finite (6004799503160661 / 2 ^ 54),
             s_kmeans = Finite (4503599627370495 / 2 ^ 53)\<rparr>
   \<and> (6004799503160661 / 2 ^ 55 + 6004799503160661 / 2 ^ 54 + 4503599627370495 / 2 ^ 53 :: real)
        = 1 - 5 / 2 ^ 55
   \<and> fadd (fadd (Finite (6004799503160661 / 2 ^ 55)) (Finite (6004799503160661 / 2 ^ 54)))
        (Finite (4503599627370495 / 2 ^ 53)) = Finite (1 - 1 / 2 ^ 53)
   \<and> is_double (2 ^ 1023)
   \<and> fadd (fadd (Finite (2 ^ 1023)) (Finite (2 ^ 1023))) (Finite 0) = PosInf
   \<and> set_weights (Finite (2 ^ 1023)) (Finite (2 ^ 1023)) (Finite 0)
      = Inr \<lparr>s_rf = Finite 0, s_ae = Finite 0, s_kmeans = Finite 0\<rparr>"
  by (simp add: float_eval)

section \<open>Feature engineering applied twice\<close>

lemma kmeans_first_pass: "prepare_features_kmeans [(''x'', Numeric [1, 2, 3])]
  = Some [(''x'', Numeric [1, 2, 3]), (''x_zscore'', Numeric [-1, 0, 1]),
          (''x_percentile'', Numeric [1 / 3, 2 / 3, 1])]"
  by (simp add: prepare_features_kmeans_def claim_blocks_apply_def numeric_cols_def
      kmeans_stat_step_def std_positive_def std_def mean_def rank_pct_def assign_def power2_eq_square)

lemma kmeans_second_pass: "map_option (map fst) (prepare_features_kmeans [(''x'', Numeric [1, 2, 3]), (''x_zscore'', Numeric [-1, 0, 1]),
          (''x_percentile'', Numeric [1 / 3, 2 / 3, 1])])
  = Some [''x'', ''x_zscore'', ''x_percentile'', ''x_zscore_zscore'', ''x_zscore_percentile'',
          ''x_percentile_zscore'', ''x_percentile_percentile'']"
  by (simp add: prepare_features_kmeans_def claim_blocks_apply_def numeric_cols_def
      kmeans_stat_step_def std_positive_def std_def mean_def rank_pct_def assign_def power2_eq_square)

lemma autoencoder_first_pass: "prepare_features_autoencoder [(''x'', Numeric [1, 2, 3])]
  = Some [(''x'', Numeric [1, 2, 3]), (''x_z_score'', Numeric [1, 0, 1]),
          (''x_is_outlier'', Numeric [0, 0, 0])]"
  by (simp add: prepare_features_autoencoder_def claim_blocks_apply_def numeric_cols_def
      autoencoder_stat_step_def std_positive_def std_def mean_def assign_def power2_eq_square)

lemma autoencoder_second_pass: "map_option (map fst) (prepare_features_autoencoder [(''x'', Numeric [1, 2, 3]), (''x_z_score'', Numeric [1, 0, 1]),
          (''x_is_outlier'', Numeric [0, 0, 0])])
  = Some [''x'', ''x_z_score'', ''x_is_outlier'', ''x_z_score_z_score'', ''x_z_score_is_outlier'']"
  by (simp add: prepare_features_autoencoder_def claim_blocks_apply_def numeric_cols_def
      autoencoder_stat_step_def std_positive_def std_def mean_def assign_def power2_eq_square)

text \<open>
  Claim C6 asks that \<^verbatim>\<open>prepare_features\<close> applied to its own output changes nothing. The
  classifier guards every derived column with \<^verbatim>\<open>if ... not in features.columns\<close>. The
  cluster detector and the reconstruction detector do not: on a table with the single numeric
  column \<open>x = [1, 2, 3]\<close> a first pass adds two columns derived from \<open>x\<close>, and a second pass
  over that output derives further columns from the derived ones.
\<close>

theorem prepare_features_reapplied:
  "prepare_features_kmeans [(''x'', Numeric [1, 2, 3])]
     = Some [(''x'', Numeric [1, 2, 3]), (''x_zscore'', Numeric [-1, 0, 1]),
             (''x_percentile'', Numeric [1 / 3, 2 / 3, 1])]
   \<and> map_option (map fst)
         (prepare_features_kmeans [(''x'', Numeric [1, 2, 3]), (''x_zscore'', Numeric [-1, 0, 1]),
                                   (''x_percentile'', Numeric [1 / 3, 2 / 3, 1])])
     = Some [''x'', ''x_zscore'', ''x_percentile'', ''x_zscore_zscore'', ''x_zscore_percentile'',
             ''x_percentile_zscore'', ''x_percentile_percentile'']
   \<and> prepare_features_autoencoder [(''x'', Numeric [1, 2, 3])]
     = Some [(''x'', Numeric [1, 2, 3]), (''x_z_score'', Numeric [1, 0, 1]),
             (''x_is_outlier'', Numeric [0, 0, 0])]
   \<and> map_option (map fst)
         (prepare_features_autoencoder [(''x'', Numeric [1, 2, 3]), (''x_z_score'', Numeric [1, 0, 1]),
                                        (''x_is_outlier'', Numeric [0, 0, 0])])
     = Some [''x'', ''x_z_score'', ''x_is_outlier'', ''x_z_score_z_score'', ''x_z_score_is_outlier'']"
  by (intro conjI kmeans_first_pass kmeans_second_pass autoencoder_first_pass autoencoder_second_pass)

end
